theory Spec2Isabelle
  imports Main "HOL-Library.Word"
begin

section \<open>Values shared by the embedded classes\<close>

text \<open>
  JavaScript values that cross the interfaces of the embedded code. An object is an
  association list, so that the insertion order of its properties (which
  \<^verbatim>\<open>JSON.stringify\<close> follows) is part of the value.
\<close>

datatype json =
    JUndefined
  | JNull
  | JBool bool
  | JNumber int
  | JString string
  | JArray "json list"
  | JObject "(string \<times> json) list"

type_synonym js_object = "(string \<times> json) list"

text \<open>Reading a property: \<^verbatim>\<open>obj.k\<close> is \<^verbatim>\<open>undefined\<close> when the object has no own property \<open>k\<close>.\<close>

definition get_prop :: "js_object \<Rightarrow> string \<Rightarrow> json" where
  "get_prop obj k = (case map_of obj k of None \<Rightarrow> JUndefined | Some v \<Rightarrow> v)"

text \<open>
  Assigning a property: \<^verbatim>\<open>obj.k = v\<close> overwrites an existing property in place and
  appends a new one after the existing ones.
\<close>

fun assign :: "js_object \<Rightarrow> string \<Rightarrow> json \<Rightarrow> js_object" where
  "assign [] k v = [(k, v)]"
| "assign ((k', v') # ps) k v = (if k' = k then (k, v) # ps else (k', v') # assign ps k v)"

type_synonym byte = "8 word"

text \<open>What an external capability may throw: an \<^verbatim>\<open>Error\<close> instance with its message, or any other value.\<close>

datatype js_thrown = ErrorInstance string | ThrownValue json

section \<open>Key store\<close>

text \<open>A \<^verbatim>\<open>CryptoKey\<close> handle as the Web Crypto interface exposes it; the key material is opaque.\<close>

datatype key_kind = PublicKey | PrivateKey | SecretKey

record CryptoKey =
  kind :: key_kind
  extractable :: bool
  usages :: "string list"
  material :: nat

record CachedKeyPair =
  publicKey :: CryptoKey
  privateKey :: CryptoKey
  requestMethod :: "string option"
  requestUri :: "string option"

text \<open>
  \<^verbatim>\<open>CryptoKeyStore\<close>: the two partitions held in \<^verbatim>\<open>this.cache\<close>, each an
  \<^verbatim>\<open>AsyncMemoryStorage\<close> keyed by string.
\<close>

record CryptoKeyStore =
  asymmetricKeys :: "string \<rightharpoonup> CachedKeyPair"
  symmetricKeys :: "string \<rightharpoonup> CryptoKey"

text \<open>
  Modelled from the spec: the class \<^verbatim>\<open>AsyncMemoryStorage\<close> (keyed storage) is not part of the
  sources. The spec gives it the operations \<^verbatim>\<open>getItem\<close>, \<^verbatim>\<open>setItem\<close>, \<^verbatim>\<open>removeItem\<close>,
  \<^verbatim>\<open>containsKey\<close> and \<^verbatim>\<open>deleteDatabase\<close> over a namespaced key-value store with two
  independent namespaces: \<open>put\<close> upserts, \<open>get\<close> returns the entry or absent, \<open>remove\<close>
  leaves the key not retrievable. The first four act on one namespace.
\<close>

definition getItem :: "('k \<rightharpoonup> 'v) \<Rightarrow> 'k \<Rightarrow> 'v option" where
  "getItem store k = store k"

definition setItem :: "('k \<rightharpoonup> 'v) \<Rightarrow> 'k \<Rightarrow> 'v \<Rightarrow> ('k \<rightharpoonup> 'v)" where
  "setItem store k v = store(k \<mapsto> v)"

definition removeItem :: "('k \<rightharpoonup> 'v) \<Rightarrow> 'k \<Rightarrow> ('k \<rightharpoonup> 'v)" where
  "removeItem store k = store(k := None)"

definition containsKey :: "('k \<rightharpoonup> 'v) \<Rightarrow> 'k \<Rightarrow> bool" where
  "containsKey store k = (store k \<noteq> None)"

text \<open>
  Modelled from the spec: \<^verbatim>\<open>deleteDatabase\<close> of \<^verbatim>\<open>AsyncMemoryStorage\<close> is not part of the
  sources. It is the storage wipe behind \<open>clear\<close>: it deletes the database that holds the
  namespaces, whichever storage handle it is called on, and returns whether the wipe
  succeeded. The outcome \<open>wiped\<close> is decided by the backing store; a failed wipe deletes
  nothing.
\<close>

datatype store_handle = AsymmetricKeysStore | SymmetricKeysStore

definition deleteDatabase :: "store_handle \<Rightarrow> bool \<Rightarrow> CryptoKeyStore \<Rightarrow> bool \<times> CryptoKeyStore" where
  "deleteDatabase h wiped cache =
     (if wiped then (True, \<lparr>asymmetricKeys = Map.empty, symmetricKeys = Map.empty\<rparr>)
      else (False, cache))"

section \<open>CryptoOps: key store operations\<close>

text \<open>\<^verbatim>\<open>Object.keys(this.cache)\<close>: the property names of the key store, in declaration order.\<close>

definition cache_keys :: "string list" where
  "cache_keys = [''asymmetricKeys'', ''symmetricKeys'']"

text \<open>\<^verbatim>\<open>this.cache[name]\<close>: the storage handle under a property name, \<^verbatim>\<open>undefined\<close> for any other name.\<close>

definition cache_lookup :: "string option \<Rightarrow> store_handle option" where
  "cache_lookup name =
     (if name = Some ''asymmetricKeys'' then Some AsymmetricKeysStore
      else if name = Some ''symmetricKeys'' then Some SymmetricKeysStore
      else None)"

text \<open>\<^verbatim>\<open>xs[0]\<close>: \<^verbatim>\<open>undefined\<close> on an empty array.\<close>

definition first_elem :: "'a list \<Rightarrow> 'a option" where
  "first_elem xs = (case xs of [] \<Rightarrow> None | x # _ \<Rightarrow> Some x)"

text \<open>
  \<^verbatim>\<open>removeTokenBindingKey(kid)\<close>: remove the entry from the asymmetric partition, then
  report that the key is not found there any more.
\<close>

definition removeTokenBindingKey :: "string \<Rightarrow> CryptoKeyStore \<Rightarrow> bool \<times> CryptoKeyStore" where
  "removeTokenBindingKey kid cache =
     (let cache' = cache\<lparr>asymmetricKeys := removeItem (asymmetricKeys cache) kid\<rparr>;
          keyFound = containsKey (asymmetricKeys cache') kid
      in (\<not> keyFound, cache'))"

text \<open>
  \<^verbatim>\<open>clearKeystore()\<close>: take the first storage handle of the key store and delete the
  database through it; \<^verbatim>\<open>false\<close> when there is no such handle.
\<close>

definition clearKeystore :: "bool \<Rightarrow> CryptoKeyStore \<Rightarrow> bool \<times> CryptoKeyStore" where
  "clearKeystore wiped cache =
     (let dataStoreNames = cache_keys;
          databaseStorage = cache_lookup (first_elem dataStoreNames)
      in case databaseStorage of
           Some h \<Rightarrow> deleteDatabase h wiped cache
         | None \<Rightarrow> (False, cache))"

section \<open>Encodings\<close>

text \<open>
  Modelled from the spec: the class \<^verbatim>\<open>Base64Encode\<close> is not part of the sources. The spec
  asks for base64url; this is the encoding of RFC 4648 section 5 without padding, as the
  compact JWT serialisation uses it: three bytes give four characters of the URL-safe
  alphabet, a rest of two bytes gives three and a rest of one byte gives two.
\<close>

definition b64url_alphabet :: string where
  "b64url_alphabet = ''ABCDEFGHIJKLMNOPQRSTUVWXYZabcdefghijklmnopqrstuvwxyz0123456789-_''"

definition sextet :: "nat \<Rightarrow> char" where
  "sextet n = b64url_alphabet ! (n mod 64)"

fun urlEncodeArr :: "byte list \<Rightarrow> string" where
  "urlEncodeArr (a # b # c # rest) =
     (let n = unat a * 65536 + unat b * 256 + unat c
      in sextet (n div 262144) # sextet (n div 4096) # sextet (n div 64) # sextet n
           # urlEncodeArr rest)"
| "urlEncodeArr [a, b] =
     (let n = unat a * 1024 + unat b * 4
      in [sextet (n div 4096), sextet (n div 64), sextet n])"
| "urlEncodeArr [a] = (let n = unat a * 16 in [sextet (n div 64), sextet n])"
| "urlEncodeArr [] = []"

text \<open>
  Modelled from the spec: \<^verbatim>\<open>BrowserStringUtils.stringToArrayBuffer\<close> is not part of the
  sources. It gives the UTF-8 bytes of a string; a \<^typ>\<open>string\<close> here is already the
  sequence of its UTF-8 bytes.
\<close>

definition stringToArrayBuffer :: "string \<Rightarrow> byte list" where
  "stringToArrayBuffer s = map (\<lambda>c. of_nat (of_char c)) s"

text \<open>\<^verbatim>\<open>urlEncode\<close> of a string is the base64url encoding of its UTF-8 bytes.\<close>

definition urlEncode :: "string \<Rightarrow> string" where
  "urlEncode s = urlEncodeArr (stringToArrayBuffer s)"

section \<open>Crypto capability\<close>

text \<open>
  \<^verbatim>\<open>CryptoKeyOptions\<close> and the table \<^verbatim>\<open>CryptoKeyConfig\<close> are declared outside the sources;
  the code passes the options on whole and reads \<^verbatim>\<open>privateKeyUsage\<close> only. The table is a
  parameter of the model.
\<close>

record CryptoKeyOptions =
  keyGenAlgorithmOptions :: js_object
  keypairUsages :: "string list"
  privateKeyUsage :: "string list"

record CryptoKeyConfig =
  AccessTokenBinding :: CryptoKeyOptions
  RefreshTokenBinding :: CryptoKeyOptions

datatype CryptoKeyTypes = ReqCnf | StkJwk

text \<open>\<^verbatim>\<open>CryptoKeyPair\<close>: both halves are optional in the type.\<close>

record CryptoKeyPair =
  pairPublicKey :: "CryptoKey option"
  pairPrivateKey :: "CryptoKey option"

text \<open>
  \<^verbatim>\<open>BrowserCrypto\<close> is the crypto capability the core consumes: every operation is a
  parameter, and every asynchronous one may throw. \<^verbatim>\<open>generateKeyPair\<close> may also resolve
  to no pair at all.
\<close>

record BrowserCrypto =
  generateKeyPair :: "CryptoKeyOptions \<Rightarrow> bool \<Rightarrow> js_thrown + CryptoKeyPair option"
  exportJwk :: "CryptoKey \<Rightarrow> js_thrown + js_object"
  importJwk :: "CryptoKeyOptions \<Rightarrow> js_object \<Rightarrow> bool \<Rightarrow> string list \<Rightarrow> js_thrown + CryptoKey"
  sign :: "CryptoKeyOptions \<Rightarrow> CryptoKey \<Rightarrow> byte list \<Rightarrow> js_thrown + byte list"
  sha256Digest :: "string \<Rightarrow> js_thrown + byte list"
  getJwkString :: "js_object \<Rightarrow> string"

text \<open>The built-in \<^verbatim>\<open>JSON\<close> object; \<^verbatim>\<open>JSON.parse\<close> throws on malformed text.\<close>

record JSON =
  stringify :: "json \<Rightarrow> string"
  parse :: "string \<Rightarrow> js_thrown + json"

text \<open>
  What a method of \<^verbatim>\<open>CryptoOps\<close> rejects with: one of the two errors it creates itself, or
  whatever a capability threw and nothing caught.
\<close>

datatype crypto_failure =
    KeyGenerationFailed "string option"
  | SigningKeyNotFoundInStorage
  | Uncaught js_thrown

text \<open>Sequencing of steps that may throw; \<open>await\<close> lets a capability's exception pass uncaught.\<close>

definition and_then :: "'e + 'a \<Rightarrow> ('a \<Rightarrow> 'e + 'b) \<Rightarrow> 'e + 'b" where
  "and_then r f = (case r of Inl e \<Rightarrow> Inl e | Inr v \<Rightarrow> f v)"

definition await :: "js_thrown + 'a \<Rightarrow> crypto_failure + 'a" where
  "await r = (case r of Inl t \<Rightarrow> Inl (Uncaught t) | Inr v \<Rightarrow> Inr v)"

section \<open>CryptoOps: key generation and signing\<close>

record SignedHttpRequestParameters =
  resourceRequestMethod :: "string option"
  resourceRequestUri :: "string option"
  shrClaims :: "string option"
  shrNonce :: "string option"

definition EXTRACTABLE :: bool where
  "EXTRACTABLE = True"

text \<open>Modelled from the spec: the constant \<^verbatim>\<open>CryptoKeyFormats.jwk\<close> is declared outside the sources; the header type is \<^verbatim>\<open>"jwk"\<close>.\<close>

definition CryptoKeyFormats_jwk :: string where
  "CryptoKeyFormats_jwk = ''jwk''"

text \<open>\<^verbatim>\<open>generateKeyPairHelper\<close>: any exception of the generation becomes a key-generation failure carrying the message of an \<^verbatim>\<open>Error\<close>.\<close>

definition generateKeyPairHelper :: "BrowserCrypto \<Rightarrow> CryptoKeyOptions \<Rightarrow> crypto_failure + CryptoKeyPair option" where
  "generateKeyPairHelper bc keyOptions =
     (case generateKeyPair bc keyOptions EXTRACTABLE of
        Inr keyPair \<Rightarrow> Inr keyPair
      | Inl error \<Rightarrow>
          (let errorMessage = (case error of ErrorInstance message \<Rightarrow> Some message | ThrownValue _ \<Rightarrow> None)
           in Inl (KeyGenerationFailed errorMessage)))"

text \<open>\<^verbatim>\<open>hashString\<close>: the digest of the text, base64url-encoded.\<close>

definition hashString :: "BrowserCrypto \<Rightarrow> string \<Rightarrow> crypto_failure + string" where
  "hashString bc plainText =
     and_then (await (sha256Digest bc plainText)) (\<lambda>hashBytes. Inr (urlEncodeArr hashBytes))"

definition missing_half_message :: string where
  "missing_half_message =
     ''Either the public or private key component is missing from the generated CryptoKeyPair''"

text \<open>The guard \<^verbatim>\<open>!keyPair || !keyPair.publicKey || !keyPair.privateKey\<close>: both halves, or the failure.\<close>

definition both_halves :: "CryptoKeyPair option \<Rightarrow> crypto_failure + (CryptoKey \<times> CryptoKey)" where
  "both_halves keyPair =
     (case keyPair of
        None \<Rightarrow> Inl (KeyGenerationFailed (Some missing_half_message))
      | Some kp \<Rightarrow>
          (case pairPublicKey kp of
             None \<Rightarrow> Inl (KeyGenerationFailed (Some missing_half_message))
           | Some pub \<Rightarrow>
               (case pairPrivateKey kp of
                  None \<Rightarrow> Inl (KeyGenerationFailed (Some missing_half_message))
                | Some priv \<Rightarrow> Inr (pub, priv))))"

text \<open>
  \<^verbatim>\<open>getPublicKeyThumbprint\<close>: generate a pair, hash the public JWK reduced to \<open>e\<close>, \<open>kty\<close>,
  \<open>n\<close>, re-import the private key with \<^verbatim>\<open>extractable = false\<close> and store the pair under the
  hash. The store is written by the last step only, so every failure leaves it as it was.
\<close>

definition getPublicKeyThumbprint ::
  "BrowserCrypto \<Rightarrow> CryptoKeyConfig \<Rightarrow> SignedHttpRequestParameters \<Rightarrow> CryptoKeyTypes option
     \<Rightarrow> CryptoKeyStore \<Rightarrow> (crypto_failure + string) \<times> CryptoKeyStore" where
  "getPublicKeyThumbprint bc cfg request keyType cache =
     (let keyOptions = (if keyType = Some StkJwk then RefreshTokenBinding cfg else AccessTokenBinding cfg);
          prepared =
            and_then (generateKeyPairHelper bc keyOptions) (\<lambda>keyPair.
            and_then (both_halves keyPair) (\<lambda>(pub, priv).
            and_then (await (exportJwk bc pub)) (\<lambda>publicKeyJwk.
              let pubKeyThumprintObj =
                    [(''e'', get_prop publicKeyJwk ''e''),
                     (''kty'', get_prop publicKeyJwk ''kty''),
                     (''n'', get_prop publicKeyJwk ''n'')];
                  publicJwkString = getJwkString bc pubKeyThumprintObj
              in
            and_then (hashString bc publicJwkString) (\<lambda>publicJwkHash.
            and_then (await (exportJwk bc priv)) (\<lambda>privateKeyJwk.
            and_then (await (importJwk bc keyOptions privateKeyJwk False (privateKeyUsage keyOptions)))
              (\<lambda>unextractablePrivateKey.
                 Inr (publicJwkHash,
                      \<lparr>publicKey = pub,
                       privateKey = unextractablePrivateKey,
                       requestMethod = resourceRequestMethod request,
                       requestUri = resourceRequestUri request\<rparr>)))))))
      in case prepared of
           Inl failure \<Rightarrow> (Inl failure, cache)
         | Inr (publicJwkHash, entry) \<Rightarrow>
             (Inr publicJwkHash,
              cache\<lparr>asymmetricKeys := setItem (asymmetricKeys cache) publicJwkHash entry\<rparr>))"

text \<open>
  \<^verbatim>\<open>signJwt\<close>: look the pair up by kid, build header and payload, sign the bytes of
  \<open>header.payload\<close> with the cached private key and append the encoded signature.
\<close>

definition signJwt ::
  "BrowserCrypto \<Rightarrow> CryptoKeyConfig \<Rightarrow> JSON \<Rightarrow> js_object \<Rightarrow> string \<Rightarrow> CryptoKeyStore
     \<Rightarrow> crypto_failure + string" where
  "signJwt bc cfg js payload kid cache =
     (case getItem (asymmetricKeys cache) kid of
        None \<Rightarrow> Inl SigningKeyNotFoundInStorage
      | Some cachedKeyPair \<Rightarrow>
          and_then (await (exportJwk bc (publicKey cachedKeyPair))) (\<lambda>publicKeyJwk.
            let publicKeyJwkString = getJwkString bc publicKeyJwk;
                header = [(''alg'', get_prop publicKeyJwk ''alg''),
                          (''type'', JString CryptoKeyFormats_jwk)];
                encodedHeader = urlEncode (stringify js (JObject header))
            in
          and_then (await (parse js publicKeyJwkString)) (\<lambda>jwk.
            let payload' = assign payload ''cnf'' (JObject [(''jwk'', jwk)]);
                encodedPayload = urlEncode (stringify js (JObject payload'));
                tokenString = encodedHeader @ ''.'' @ encodedPayload;
                tokenBuffer = stringToArrayBuffer tokenString
            in
          and_then (await (sign bc (AccessTokenBinding cfg) (privateKey cachedKeyPair) tokenBuffer))
            (\<lambda>signatureBuffer.
               Inr (tokenString @ ''.'' @ urlEncodeArr signatureBuffer)))))"

section \<open>PoP token generator\<close>

text \<open>The components of a URL that the signed HTTP request uses.\<close>

record UrlComponents =
  Protocol :: string
  HostNameAndPort :: string
  AbsolutePath :: string
  QueryString :: string

text \<open>
  Modelled from the spec: \<^verbatim>\<open>UrlString.getUrlComponents\<close> is not part of the sources. The
  spec names the parts it yields: host and port, the absolute path, and the query string
  without its leading question mark. The URL is read as
  \<open>scheme://host:port/path?query#fragment\<close>: the scheme ends at the first colon, the
  host and port follow the two slashes and end at the next slash, question mark or hash,
  the path ends at the next question mark or hash, and the query string ends at the hash.
\<close>

definition getUrlComponents :: "string \<Rightarrow> UrlComponents" where
  "getUrlComponents url =
     (let scheme = takeWhile (\<lambda>c. c \<notin> set '':/?#'') url;
          afterScheme = dropWhile (\<lambda>c. c \<notin> set '':/?#'') url;
          hasScheme = (scheme \<noteq> [] \<and> take 1 afterScheme = '':'');
          hierarchy = (if hasScheme then drop 1 afterScheme else url);
          hasAuthority = (take 2 hierarchy = ''//'');
          host = (if hasAuthority then takeWhile (\<lambda>c. c \<notin> set ''/?#'') (drop 2 hierarchy) else []);
          afterHost = (if hasAuthority then dropWhile (\<lambda>c. c \<notin> set ''/?#'') (drop 2 hierarchy)
                       else hierarchy);
          path = takeWhile (\<lambda>c. c \<notin> set ''?#'') afterHost;
          afterPath = dropWhile (\<lambda>c. c \<notin> set ''?#'') afterHost;
          query = (if take 1 afterPath = ''?'' then takeWhile (\<lambda>c. c \<noteq> CHR ''#'') (drop 1 afterPath)
                   else [])
      in \<lparr>Protocol = (if hasScheme then scheme @ '':'' else []),
          HostNameAndPort = host,
          AbsolutePath = path,
          QueryString = query\<rparr>)"

text \<open>An optional string as a JavaScript value: \<^verbatim>\<open>undefined\<close> when absent.\<close>

definition optional_string :: "string option \<Rightarrow> json" where
  "optional_string v = (case v of None \<Rightarrow> JUndefined | Some t \<Rightarrow> JString t)"

text \<open>
  Modelled from the spec: the class \<^verbatim>\<open>PopTokenGenerator\<close> is not part of the sources; its
  tests are. The claim set of \<^verbatim>\<open>signPopToken\<close> is: \<open>at\<close> the access token, \<open>ts\<close> the
  current time in seconds, \<open>m\<close> the resource request method, \<open>u\<close>, \<open>p\<close> and \<open>q\<close> the host
  and port, the absolute path and the pair of an empty list and the query string of the
  parsed resource request URI, each \<^verbatim>\<open>undefined\<close> when the request has none, \<open>nonce\<close>
  the nonce of the request or else a freshly generated GUID, and \<open>client_claims\<close> the
  claims of the request as they are. The GUID and the time are supplied by the caller of
  the model.
\<close>

definition shr_claims :: "string \<Rightarrow> int \<Rightarrow> string \<Rightarrow> SignedHttpRequestParameters \<Rightarrow> js_object" where
  "shr_claims newGuid nowSeconds accessToken request =
     (let resourceUrlComponents = map_option getUrlComponents (resourceRequestUri request)
      in [(''at'', JString accessToken),
          (''ts'', JNumber nowSeconds),
          (''m'', optional_string (resourceRequestMethod request)),
          (''u'', optional_string (map_option HostNameAndPort resourceUrlComponents)),
          (''nonce'', JString (case shrNonce request of
                                 None \<Rightarrow> newGuid
                               | Some nonce \<Rightarrow> if nonce = [] then newGuid else nonce)),
          (''p'', optional_string (map_option AbsolutePath resourceUrlComponents)),
          (''q'', (case resourceUrlComponents of
                     None \<Rightarrow> JUndefined
                   | Some components \<Rightarrow> JArray [JArray [], JString (QueryString components)])),
          (''client_claims'', optional_string (shrClaims request))])"

text \<open>
  Modelled from the spec: \<^verbatim>\<open>signPopToken\<close> hands the claim set and the key thumbprint of
  the request to \<^verbatim>\<open>signJwt\<close>.
\<close>

definition signPopToken ::
  "BrowserCrypto \<Rightarrow> CryptoKeyConfig \<Rightarrow> JSON \<Rightarrow> string \<Rightarrow> int \<Rightarrow> string \<Rightarrow> string
     \<Rightarrow> SignedHttpRequestParameters \<Rightarrow> CryptoKeyStore \<Rightarrow> crypto_failure + string" where
  "signPopToken bc cfg js newGuid nowSeconds kid accessToken request cache =
     signJwt bc cfg js (shr_claims newGuid nowSeconds accessToken request) kid cache"

section \<open>BaseClient: requests to the token endpoint\<close>

type_synonym http_headers = "string \<rightharpoonup> string"

text \<open>The table \<^verbatim>\<open>HeaderNames\<close> is declared outside the sources: a parameter of the model.\<close>

record HeaderNames =
  CONTENT_TYPE :: string
  CONTENT_LENGTH :: string
  X_MS_HTTP_VERSION :: string
  X_MS_REQUEST_ID :: string

record NetworkRequestOptions =
  reqHeaders :: "http_headers option"
  reqBody :: "string option"

record NetworkResponse =
  headers :: "http_headers option"
  body :: js_object
  status :: nat

text \<open>
  An \<^verbatim>\<open>AuthError\<close> is identified by its error code; the one that \<^verbatim>\<open>sendPostRequest\<close>
  creates itself, \<^verbatim>\<open>createClientAuthError(ClientAuthErrorCodes.networkError)\<close>, has a
  constructor of its own.
\<close>

datatype AuthError = ClientAuthError_networkError | AuthError string

text \<open>
  What the collaborators throw: a \<^verbatim>\<open>NetworkError\<close> with its fields \<open>error\<close>,
  \<open>responseHeaders\<close> and \<open>httpStatus\<close>, another \<^verbatim>\<open>AuthError\<close>, or anything else.
\<close>

datatype thrown =
    NetworkError AuthError "http_headers option" "nat option"
  | ThrownAuthError AuthError
  | ThrownOther js_thrown

text \<open>
  The calls that \<^verbatim>\<open>sendPostRequest\<close> makes on its collaborators are recorded in the order
  in which they are made: the two calls on \<^verbatim>\<open>ThrottlingUtils\<close>, the transmission by the
  network client, and the telemetry sent to the performance client.
\<close>

datatype 't call =
    PreProcess 't
  | SendPostRequestAsync string NetworkRequestOptions
  | AddFields js_object string
  | PostProcess 't NetworkResponse

text \<open>
  The client: its cache manager, whether it has a performance client (the field is
  optional), and the calls made so far.
\<close>

record ('c, 't) BaseClient =
  cacheManager :: 'c
  performanceClient :: bool
  calls :: "'t call list"

text \<open>
  \<^verbatim>\<open>ThrottlingUtils\<close> and the network client are outside the sources: parameters of the
  model. The pre-flight check either throws or passes, and may update the cache; so may
  the post-flight update.
\<close>

record ('c, 't) Collaborators =
  preProcess :: "'c \<Rightarrow> 't \<Rightarrow> thrown + 'c"
  postProcess :: "'c \<Rightarrow> 't \<Rightarrow> NetworkResponse \<Rightarrow> thrown + 'c"
  sendPostRequestAsync :: "string \<Rightarrow> NetworkRequestOptions \<Rightarrow> thrown + NetworkResponse"

text \<open>\<^verbatim>\<open>h[name] || ""\<close> and \<^verbatim>\<open>h[name] || undefined\<close>: an empty value counts as absent.\<close>

definition header_or_empty :: "http_headers \<Rightarrow> string \<Rightarrow> json" where
  "header_or_empty h name = JString (case h name of None \<Rightarrow> [] | Some v \<Rightarrow> v)"

definition header_or_undefined :: "http_headers \<Rightarrow> string \<Rightarrow> json" where
  "header_or_undefined h name =
     (case h name of None \<Rightarrow> JUndefined | Some v \<Rightarrow> if v = [] then JUndefined else JString v)"

text \<open>\<^verbatim>\<open>this.performanceClient?.addFields(fields, correlationId)\<close>: nothing without a performance client.\<close>

definition addFields :: "('c, 't) BaseClient \<Rightarrow> js_object \<Rightarrow> string \<Rightarrow> ('c, 't) BaseClient" where
  "addFields this telemetry correlationId =
     (if performanceClient this then this\<lparr>calls := calls this @ [AddFields telemetry correlationId]\<rparr>
      else this)"

text \<open>\<^verbatim>\<open>response.body.refresh_token?.length || 0\<close>\<close>

definition refreshTokenSize :: "js_object \<Rightarrow> json" where
  "refreshTokenSize responseBody =
     JNumber (case get_prop responseBody ''refresh_token'' of
                JString token \<Rightarrow> int (length token)
              | _ \<Rightarrow> 0)"

text \<open>
  \<^verbatim>\<open>sendPostRequest\<close>: the pre-flight check, outside the \<^verbatim>\<open>try\<close>; the transmission and
  its telemetry, inside; the handler, which rethrows; the post-flight update, after the
  \<^verbatim>\<open>try\<close>. The wrapper \<^verbatim>\<open>invokeAsync\<close> is taken to pass the result and the exception of
  the function it wraps through.
\<close>

definition sendPostRequest ::
  "('c, 't) Collaborators \<Rightarrow> HeaderNames \<Rightarrow> 't \<Rightarrow> string \<Rightarrow> NetworkRequestOptions \<Rightarrow> string
     \<Rightarrow> ('c, 't) BaseClient \<Rightarrow> (thrown + NetworkResponse) \<times> ('c, 't) BaseClient" where
  "sendPostRequest env hn thumbprint tokenEndpoint options correlationId this =
     (let this1 = this\<lparr>calls := calls this @ [PreProcess thumbprint]\<rparr>
      in case preProcess env (cacheManager this1) thumbprint of
           Inl throttled \<Rightarrow> (Inl throttled, this1)
         | Inr cache1 \<Rightarrow>
             (let this2 = this1\<lparr>cacheManager := cache1,
                               calls := calls this1 @ [SendPostRequestAsync tokenEndpoint options]\<rparr>
              in case sendPostRequestAsync env tokenEndpoint options of
                   Inr response \<Rightarrow>
                     (let responseHeaders = (case headers response of None \<Rightarrow> Map.empty | Some h \<Rightarrow> h);
                          this3 = addFields this2
                            [(''refreshTokenSize'', refreshTokenSize (body response)),
                             (''httpVerToken'', header_or_empty responseHeaders (X_MS_HTTP_VERSION hn)),
                             (''requestId'', header_or_empty responseHeaders (X_MS_REQUEST_ID hn))]
                            correlationId;
                          this4 = this3\<lparr>calls := calls this3 @ [PostProcess thumbprint response]\<rparr>
                      in case postProcess env (cacheManager this4) thumbprint response of
                           Inl e \<Rightarrow> (Inl e, this4)
                         | Inr cache2 \<Rightarrow> (Inr response, this4\<lparr>cacheManager := cache2\<rparr>))
                 | Inl (NetworkError error responseHeaders httpStatus) \<Rightarrow>
                     (Inl (ThrownAuthError error),
                      case responseHeaders of
                        None \<Rightarrow> this2
                      | Some h \<Rightarrow> addFields this2
                          [(''httpVerToken'', header_or_empty h (X_MS_HTTP_VERSION hn)),
                           (''requestId'', header_or_empty h (X_MS_REQUEST_ID hn)),
                           (''contentTypeHeader'', header_or_undefined h (CONTENT_TYPE hn)),
                           (''contentLengthHeader'', header_or_undefined h (CONTENT_LENGTH hn)),
                           (''httpStatus'', (case httpStatus of None \<Rightarrow> JUndefined
                                              | Some code \<Rightarrow> JNumber (int code)))]
                          correlationId)
                 | Inl (ThrownAuthError e) \<Rightarrow> (Inl (ThrownAuthError e), this2)
                 | Inl (ThrownOther e) \<Rightarrow> (Inl (ThrownAuthError ClientAuthError_networkError), this2)))"

section \<open>NativeAuthStandardController: sign-in\<close>

record SignInInputs =
  correlationId :: "string option"
  username :: "string option"
  password :: "string option"
  scopes :: "string list option"

record NativeAuthConfiguration =
  challengeTypes :: "string list option"

record BrowserConfiguration =
  authority :: string
  clientId :: string

text \<open>\<^verbatim>\<open>NativeAuthError\<close> with its error, its description and its correlation id.\<close>

datatype NativeAuthError = NativeAuthError string string "string option"

text \<open>
  \<^verbatim>\<open>UnexpectedError\<close>: the description is the message of an \<^verbatim>\<open>Error\<close>, a string as it is,
  the JSON text of an object, and a fixed text for anything else.
\<close>

definition UnexpectedError :: "JSON \<Rightarrow> js_thrown \<Rightarrow> string option \<Rightarrow> NativeAuthError" where
  "UnexpectedError js errorData cid =
     (let errorDescription =
            (case errorData of
               ErrorInstance message \<Rightarrow> message
             | ThrownValue (JString text) \<Rightarrow> text
             | ThrownValue (JObject obj) \<Rightarrow> stringify js (JObject obj)
             | ThrownValue (JArray items) \<Rightarrow> stringify js (JArray items)
             | ThrownValue _ \<Rightarrow> ''An unexpected error occurred.'')
      in NativeAuthError ''unexpected_error'' errorDescription cid)"

text \<open>What may be thrown during the sign-in flow.\<close>

datatype flow_thrown =
    InvalidArgumentError string string
  | ThrownNativeAuthError NativeAuthError
  | ThrownByClient js_thrown

record SignInStartParams =
  startAuthority :: string
  startClientId :: string
  startCorrelationId :: string
  startChallengeTypes :: "string list"
  startScopes :: "string list"
  startUsername :: string
  startPassword :: "string option"

record SignInSubmitPasswordParams =
  submitAuthority :: string
  submitClientId :: string
  submitCorrelationId :: string
  submitChallengeTypes :: "string list"
  submitScopes :: "string list"
  submitContinuationToken :: string
  submitPassword_password :: string

text \<open>What \<^verbatim>\<open>signInClient.start\<close> resolves to: one of the two classes the controller tests for, or anything else.\<close>

datatype SignInStartResult =
    SignInWithContinuationTokenResult string
  | SignInCodeSendResponse string
  | OtherStartResult

record SignInCompletedResult =
  authenticationResult_account :: js_object

record AccountInfo =
  account :: js_object
  accountCorrelationId :: string
  accountConfig :: NativeAuthConfiguration

text \<open>The two states, with correlation id, continuation token, configuration and scopes.\<close>

datatype SignInState =
    SignInPasswordRequiredState string string NativeAuthConfiguration "string list option"
  | SignInCodeRequiredState string string NativeAuthConfiguration "string list option"

text \<open>\<^verbatim>\<open>SignInResult\<close>, built by \<^verbatim>\<open>new SignInResult(resultData, stateHandler)\<close>.\<close>

record 'e SignInResult =
  data :: "AccountInfo option"
  state :: "SignInState option"
  error :: "'e option"

text \<open>
  The controller: its configurations and its collaborators. \<^verbatim>\<open>createWithError\<close> of
  \<^verbatim>\<open>ResultBase\<close>, the sign-in client and \<^verbatim>\<open>createNewGuid\<close> are outside the sources:
  parameters of the model. The two calls on the client may throw; \<^verbatim>\<open>createNewGuid\<close> and
  \<^verbatim>\<open>createWithError\<close> are taken to return.
\<close>

record 'e NativeAuthStandardController =
  config :: BrowserConfiguration
  nativeAuthConfig :: NativeAuthConfiguration
  start :: "SignInStartParams \<Rightarrow> flow_thrown + SignInStartResult"
  submitPassword :: "SignInSubmitPasswordParams \<Rightarrow> flow_thrown + SignInCompletedResult"
  createNewGuid :: string
  createWithError :: "flow_thrown \<Rightarrow> 'e SignInResult"
  jsonObject :: JSON

text \<open>
  A string that is \<^verbatim>\<open>undefined\<close> or empty is falsy: \<open>truthy\<close> gives the string when it
  is neither.
\<close>

definition truthy :: "string option \<Rightarrow> string option" where
  "truthy v = (case v of None \<Rightarrow> None | Some t \<Rightarrow> if t = [] then None else Some t)"

text \<open>\<^verbatim>\<open>actionOptions.correlationId || this.browserCrypto.createNewGuid()\<close>\<close>

definition getCorrelationId :: "'e NativeAuthStandardController \<Rightarrow> string option \<Rightarrow> string" where
  "getCorrelationId this cid = (case truthy cid of Some given \<Rightarrow> given | None \<Rightarrow> createNewGuid this)"

text \<open>\<^verbatim>\<open>xs ?? []\<close>\<close>

definition or_empty :: "'a list option \<Rightarrow> 'a list" where
  "or_empty xs = (case xs of None \<Rightarrow> [] | Some ys \<Rightarrow> ys)"

text \<open>The body of the \<^verbatim>\<open>try\<close> block of \<^verbatim>\<open>signIn\<close>: it returns a result or throws.\<close>

definition signIn_flow ::
  "'e NativeAuthStandardController \<Rightarrow> string \<Rightarrow> string \<Rightarrow> SignInInputs
     \<Rightarrow> flow_thrown + 'e SignInResult" where
  "signIn_flow this cid name signInOptions =
     (let authorityUrl = authority (config this);
          signInStartParams =
            \<lparr>startAuthority = authorityUrl,
             startClientId = clientId (config this),
             startCorrelationId = cid,
             startChallengeTypes = or_empty (challengeTypes (nativeAuthConfig this)),
             startScopes = or_empty (scopes signInOptions),
             startUsername = name,
             startPassword = password signInOptions\<rparr>
      in and_then (start this signInStartParams) (\<lambda>startResult.
           case startResult of
             SignInWithContinuationTokenResult continuationToken \<Rightarrow>
               (case truthy (password signInOptions) of
                  None \<Rightarrow>
                    Inr \<lparr>data = None,
                         state = Some (SignInPasswordRequiredState cid continuationToken
                                         (nativeAuthConfig this) (scopes signInOptions)),
                         error = None\<rparr>
                | Some givenPassword \<Rightarrow>
                  (let signInSubmitPasswordParams =
                         \<lparr>submitAuthority = authorityUrl,
                          submitClientId = clientId (config this),
                          submitCorrelationId = cid,
                          submitChallengeTypes = or_empty (challengeTypes (nativeAuthConfig this)),
                          submitScopes = or_empty (scopes signInOptions),
                          submitContinuationToken = continuationToken,
                          submitPassword_password = givenPassword\<rparr>
                   in and_then (submitPassword this signInSubmitPasswordParams) (\<lambda>completedResult.
                        let accountManager =
                              \<lparr>account = authenticationResult_account completedResult,
                               accountCorrelationId = cid,
                               accountConfig = nativeAuthConfig this\<rparr>
                        in Inr \<lparr>data = Some accountManager, state = None, error = None\<rparr>)))
           | SignInCodeSendResponse continuationToken \<Rightarrow>
               Inr \<lparr>data = None,
                    state = Some (SignInCodeRequiredState cid continuationToken
                                    (nativeAuthConfig this) (scopes signInOptions)),
                    error = None\<rparr>
           | OtherStartResult \<Rightarrow>
               Inl (ThrownNativeAuthError
                      (UnexpectedError (jsonObject this)
                         (ThrownValue (JString ''Unknow SignInStartResult type'')) None))))"

text \<open>
  \<^verbatim>\<open>signIn\<close>: the promise it returns resolves to \<open>Inr\<close> of a result or rejects with \<open>Inl\<close>
  of what was thrown. A missing user name gives an error result at once; whatever the
  \<^verbatim>\<open>try\<close> block throws is caught and turned into an error result.
\<close>

definition signIn ::
  "'e NativeAuthStandardController \<Rightarrow> SignInInputs \<Rightarrow> flow_thrown + 'e SignInResult" where
  "signIn this signInOptions =
     (let cid = getCorrelationId this (correlationId signInOptions)
      in case truthy (username signInOptions) of
           None \<Rightarrow> Inr (createWithError this (InvalidArgumentError ''username'' cid))
         | Some name \<Rightarrow>
             (case signIn_flow this cid name signInOptions of
                Inr result \<Rightarrow> Inr result
              | Inl thrown \<Rightarrow> Inr (createWithError this thrown)))"

section \<open>A test double of the capabilities\<close>

text \<open>
  A crypto capability, a key configuration and a \<^verbatim>\<open>JSON\<close> object small enough to run the
  operations on concrete inputs. The double generates the pair with the extractability it
  is asked for, and imports a key with the extractability and usages it is given.
\<close>

definition test_options :: CryptoKeyOptions where
  "test_options =
     \<lparr>keyGenAlgorithmOptions = [(''name'', JString ''RSASSA-PKCS1-v1_5'')],
      keypairUsages = [''sign'', ''verify''],
      privateKeyUsage = [''sign'']\<rparr>"

definition test_config :: CryptoKeyConfig where
  "test_config =
     \<lparr>AccessTokenBinding = test_options,
      RefreshTokenBinding = test_options\<lparr>privateKeyUsage := [''decrypt'']\<rparr>\<rparr>"

definition test_public_jwk :: js_object where
  "test_public_jwk =
     [(''alg'', JString ''RS256''), (''e'', JString ''AQAB''), (''ext'', JBool True),
      (''kty'', JString ''RSA''), (''n'', JString ''q83v'')]"

definition render_jwk :: "js_object \<Rightarrow> string" where
  "render_jwk jwk =
     concat (map (\<lambda>(k, v). k @ '':'' @ (case v of JString t \<Rightarrow> t | _ \<Rightarrow> []) @ '';'') jwk)"

definition test_crypto :: BrowserCrypto where
  "test_crypto =
     \<lparr>generateKeyPair = (\<lambda>opts ext.
        Inr (Some \<lparr>pairPublicKey = Some \<lparr>kind = PublicKey, extractable = ext, usages = [''verify''], material = 1\<rparr>,
                   pairPrivateKey = Some \<lparr>kind = PrivateKey, extractable = ext, usages = [''sign''], material = 2\<rparr>\<rparr>)),
      exportJwk = (\<lambda>k.
        if extractable k
        then Inr (if kind k = PublicKey then test_public_jwk else test_public_jwk @ [(''d'', JString ''c2Vj'')])
        else Inl (ErrorInstance ''key is not extractable'')),
      importJwk = (\<lambda>opts jwk ext us.
        Inr \<lparr>kind = PrivateKey, extractable = ext, usages = us, material = 2\<rparr>),
      sign = (\<lambda>opts k buf. Inr [of_nat (length buf), 7, 9]),
      sha256Digest = (\<lambda>text. Inr [of_nat (length text), 171, 205]),
      getJwkString = render_jwk\<rparr>"

definition failing_crypto :: BrowserCrypto where
  "failing_crypto = test_crypto\<lparr>generateKeyPair := (\<lambda>opts ext. Inl (ErrorInstance ''no entropy''))\<rparr>"

definition one_half_crypto :: BrowserCrypto where
  "one_half_crypto = test_crypto\<lparr>generateKeyPair := (\<lambda>opts ext.
     Inr (Some \<lparr>pairPublicKey = Some \<lparr>kind = PublicKey, extractable = ext, usages = [''verify''], material = 1\<rparr>,
                pairPrivateKey = None\<rparr>))\<rparr>"

definition test_json :: JSON where
  "test_json =
     \<lparr>stringify = (\<lambda>j. case j of JObject ps \<Rightarrow> render_jwk ps | _ \<Rightarrow> []),
      parse = (\<lambda>text. Inr (JString text))\<rparr>"

definition test_request :: SignedHttpRequestParameters where
  "test_request =
     \<lparr>resourceRequestMethod = Some ''POST'',
      resourceRequestUri = Some ''https://resource.example/api?foo=bar'',
      shrClaims = None,
      shrNonce = Some ''nonce-1''\<rparr>"

definition empty_store :: CryptoKeyStore where
  "empty_store = \<lparr>asymmetricKeys = Map.empty, symmetricKeys = Map.empty\<rparr>"

definition test_key :: CryptoKey where
  "test_key = \<lparr>kind = SecretKey, extractable = False, usages = [''decrypt''], material = 5\<rparr>"

definition test_pair :: CachedKeyPair where
  "test_pair =
     \<lparr>publicKey = \<lparr>kind = PublicKey, extractable = True, usages = [''verify''], material = 1\<rparr>,
      privateKey = \<lparr>kind = PrivateKey, extractable = False, usages = [''sign''], material = 2\<rparr>,
      requestMethod = None, requestUri = None\<rparr>"

definition full_store :: CryptoKeyStore where
  "full_store = \<lparr>asymmetricKeys = [''kid-1'' \<mapsto> test_pair], symmetricKeys = [''stk-1'' \<mapsto> test_key]\<rparr>"

text \<open>
  A double of the throttling utilities and of the network client: the cache maps a
  request thumbprint to the time until which the request is throttled, and the network
  client gives a fixed answer.
\<close>

definition test_header_names :: HeaderNames where
  "test_header_names =
     \<lparr>CONTENT_TYPE = ''Content-Type'', CONTENT_LENGTH = ''Content-Length'',
      X_MS_HTTP_VERSION = ''x-ms-httpver'', X_MS_REQUEST_ID = ''x-ms-request-id''\<rparr>"

definition throttling_double ::
  "nat \<Rightarrow> thrown + NetworkResponse \<Rightarrow> (string \<rightharpoonup> nat, string) Collaborators" where
  "throttling_double now answer =
     \<lparr>preProcess = (\<lambda>cache t.
        case cache t of
          None \<Rightarrow> Inr cache
        | Some throttleTime \<Rightarrow>
            if now < throttleTime then Inl (ThrownAuthError (AuthError ''throttled''))
            else Inr (cache(t := None))),
      postProcess = (\<lambda>cache t response.
        Inr (if 500 \<le> status response \<or> status response = 429 then cache(t \<mapsto> now + 60) else cache)),
      sendPostRequestAsync = (\<lambda>endpoint options. answer)\<rparr>"

definition test_response :: NetworkResponse where
  "test_response = \<lparr>headers = None, body = [(''refresh_token'', JString ''rt'')], status = 200\<rparr>"

definition test_options_post :: NetworkRequestOptions where
  "test_options_post = \<lparr>reqHeaders = None, reqBody = Some ''grant_type=refresh_token''\<rparr>"

definition throttled_client :: "(string \<rightharpoonup> nat, string) BaseClient" where
  "throttled_client = \<lparr>cacheManager = [''T'' \<mapsto> 1060], performanceClient = True, calls = []\<rparr>"

definition fresh_client :: "(string \<rightharpoonup> nat, string) BaseClient" where
  "fresh_client = \<lparr>cacheManager = Map.empty, performanceClient = True, calls = []\<rparr>"

text \<open>A double of the sign-in controller whose client answers the start of the flow as given.\<close>

definition test_controller ::
  "(flow_thrown + SignInStartResult) \<Rightarrow> flow_thrown NativeAuthStandardController" where
  "test_controller answer =
     \<lparr>config = \<lparr>authority = ''https://login.example/tenant'', clientId = ''test-client-id''\<rparr>,
      nativeAuthConfig = \<lparr>challengeTypes = Some [''test-challenge-type'']\<rparr>,
      start = (\<lambda>params. answer),
      submitPassword = (\<lambda>params. Inl (ThrownByClient (ErrorInstance ''wrong password''))),
      createNewGuid = ''guid-0'',
      createWithError = (\<lambda>thrown. \<lparr>data = None, state = None, error = Some thrown\<rparr>),
      jsonObject = test_json\<rparr>"

definition test_inputs :: SignInInputs where
  "test_inputs = \<lparr>correlationId = None, username = Some ''user@example.com'',
                  password = Some ''secret'', scopes = None\<rparr>"

section \<open>Auxiliary facts\<close>

lemma and_then_eq_Inr:
  "and_then r f = Inr y \<longleftrightarrow> (\<exists>v. r = Inr v \<and> f v = Inr y)"
  by (cases r) (simp_all add: and_then_def)

lemma await_eq_Inr: "await r = Inr v \<longleftrightarrow> r = Inr v"
  by (cases r) (simp_all add: await_def)

lemma generateKeyPairHelper_eq_Inr:
  "generateKeyPairHelper bc keyOptions = Inr keyPair
     \<longleftrightarrow> generateKeyPair bc keyOptions True = Inr keyPair"
  by (cases "generateKeyPair bc keyOptions True")
     (simp_all add: generateKeyPairHelper_def EXTRACTABLE_def)

lemma both_halves_eq_Inr:
  "both_halves keyPair = Inr (pub, priv)
     \<longleftrightarrow> (\<exists>kp. keyPair = Some kp \<and> pairPublicKey kp = Some pub \<and> pairPrivateKey kp = Some priv)"
  by (auto simp: both_halves_def split: option.splits)

lemma hashString_eq_Inr:
  "hashString bc plainText = Inr h
     \<longleftrightarrow> (\<exists>digest. sha256Digest bc plainText = Inr digest \<and> h = urlEncodeArr digest)"
  by (auto simp: hashString_def and_then_eq_Inr await_eq_Inr)

text \<open>What a successful run of \<^verbatim>\<open>getPublicKeyThumbprint\<close> has done, step by step.\<close>

lemma getPublicKeyThumbprint_success:
  assumes "getPublicKeyThumbprint bc cfg request keyType cache = (Inr kid, cache')"
  defines "keyOptions \<equiv> (if keyType = Some StkJwk then RefreshTokenBinding cfg else AccessTokenBinding cfg)"
  shows "\<exists>kp pub priv publicKeyJwk digest privateKeyJwk imported.
           generateKeyPair bc keyOptions True = Inr (Some kp)
           \<and> pairPublicKey kp = Some pub \<and> pairPrivateKey kp = Some priv
           \<and> exportJwk bc pub = Inr publicKeyJwk
           \<and> sha256Digest bc (getJwkString bc
                 [(''e'', get_prop publicKeyJwk ''e''),
                  (''kty'', get_prop publicKeyJwk ''kty''),
                  (''n'', get_prop publicKeyJwk ''n'')]) = Inr digest
           \<and> kid = urlEncodeArr digest
           \<and> exportJwk bc priv = Inr privateKeyJwk
           \<and> importJwk bc keyOptions privateKeyJwk False (privateKeyUsage keyOptions) = Inr imported
           \<and> cache' = cache\<lparr>asymmetricKeys := (asymmetricKeys cache)(kid \<mapsto>
                 \<lparr>publicKey = pub, privateKey = imported,
                  requestMethod = resourceRequestMethod request,
                  requestUri = resourceRequestUri request\<rparr>)\<rparr>"
  using assms
  unfolding getPublicKeyThumbprint_def Let_def
  by (auto simp: and_then_eq_Inr await_eq_Inr generateKeyPairHelper_eq_Inr both_halves_eq_Inr
        hashString_eq_Inr setItem_def split: sum.splits prod.splits)

text \<open>A failure of \<^verbatim>\<open>getPublicKeyThumbprint\<close> leaves the key store as it was.\<close>

lemma getPublicKeyThumbprint_failure:
  "getPublicKeyThumbprint bc cfg request keyType cache = (Inl failure, cache') \<Longrightarrow> cache' = cache"
  unfolding getPublicKeyThumbprint_def Let_def
  by (auto split: sum.splits prod.splits)

lemma get_prop_assign_same: "get_prop (assign ps k v) k = v"
  by (induction ps) (auto simp: get_prop_def)

lemma get_prop_assign_other: "k' \<noteq> k \<Longrightarrow> get_prop (assign ps k v) k' = get_prop ps k'"
  by (induction ps) (auto simp: get_prop_def)

lemma dot_not_in_alphabet: "CHR ''.'' \<notin> set b64url_alphabet"
  by (simp add: b64url_alphabet_def)

lemma sextet_in_alphabet: "sextet n \<in> set b64url_alphabet"
proof -
  have "length b64url_alphabet = 64"
    by (simp add: b64url_alphabet_def)
  then have "n mod 64 < length b64url_alphabet"
    by simp
  then show ?thesis
    unfolding sextet_def by (rule nth_mem)
qed

lemma urlEncodeArr_alphabet: "set (urlEncodeArr bs) \<subseteq> set b64url_alphabet"
  by (induction bs rule: urlEncodeArr.induct) (simp_all add: Let_def sextet_in_alphabet)

lemma urlEncodeArr_no_dot: "CHR ''.'' \<notin> set (urlEncodeArr bs)"
  using urlEncodeArr_alphabet [of bs] dot_not_in_alphabet by blast

lemma urlEncode_no_dot: "CHR ''.'' \<notin> set (urlEncode s)"
  by (simp add: urlEncode_def urlEncodeArr_no_dot)

section \<open>Properties of the key store operations\<close>

text \<open>
  C1. \<^verbatim>\<open>clearKeystore()\<close> returns the outcome of the underlying storage wipe, and after a
  wipe that succeeded every lookup, in the asymmetric and in the symmetric partition
  alike, returns absent: so does the lookup of every thumbprint stored before.
\<close>

theorem clearKeystore_drops_both_partitions:
  "clearKeystore wiped cache = (ok, cache') \<Longrightarrow>
     ok = wiped
     \<and> (ok \<longrightarrow> (\<forall>k. getItem (asymmetricKeys cache') k = None
                   \<and> getItem (symmetricKeys cache') k = None))"
  by (auto simp: clearKeystore_def cache_keys_def first_elem_def cache_lookup_def
        deleteDatabase_def getItem_def split: if_splits)

theorem clearKeystore_drops_both_partitions_witness:
  "getItem (asymmetricKeys full_store) ''kid-1'' = Some test_pair
   \<and> getItem (symmetricKeys full_store) ''stk-1'' = Some test_key
   \<and> fst (clearKeystore True full_store) = True
   \<and> getItem (asymmetricKeys (snd (clearKeystore True full_store))) ''kid-1'' = None
   \<and> getItem (symmetricKeys (snd (clearKeystore True full_store))) ''stk-1'' = None"
  using clearKeystore_drops_both_partitions
    [of True full_store "fst (clearKeystore True full_store)" "snd (clearKeystore True full_store)"]
  by (simp add: full_store_def getItem_def)

text \<open>
  C2, as the claim states it, fails: the returned boolean is true also when no key was
  removed. For a kid that was never stored the call returns true and leaves the
  asymmetric partition as it was.
\<close>

theorem removeTokenBindingKey_true_without_removal:
  "getItem (asymmetricKeys full_store) ''kid-2'' = None
   \<and> fst (removeTokenBindingKey ''kid-2'' full_store) = True
   \<and> asymmetricKeys (snd (removeTokenBindingKey ''kid-2'' full_store)) = asymmetricKeys full_store"
  by (simp add: removeTokenBindingKey_def Let_def full_store_def getItem_def removeItem_def
        containsKey_def)

text \<open>
  C2, amended. For every kid, after \<^verbatim>\<open>removeTokenBindingKey(kid)\<close> a lookup of the same
  kid in the asymmetric partition returns absent, and the returned boolean is the
  negation of \<^verbatim>\<open>containsKey\<close> on the store after the removal: it is true, whether the kid
  was stored before the call or not. The store after the call is the store before it
  without the entry of the kid; no other entry is touched.
\<close>

theorem removeTokenBindingKey_removes:
  "removeTokenBindingKey kid cache = (removed, cache') \<Longrightarrow>
     getItem (asymmetricKeys cache') kid = None
     \<and> removed = (\<not> containsKey (asymmetricKeys cache') kid)
     \<and> removed
     \<and> cache' = cache\<lparr>asymmetricKeys := removeItem (asymmetricKeys cache) kid\<rparr>
     \<and> (\<forall>k. k \<noteq> kid \<longrightarrow> getItem (asymmetricKeys cache') k = getItem (asymmetricKeys cache) k)
     \<and> symmetricKeys cache' = symmetricKeys cache"
  by (auto simp: removeTokenBindingKey_def Let_def getItem_def removeItem_def containsKey_def)

theorem removeTokenBindingKey_removes_witness:
  "getItem (asymmetricKeys full_store) ''kid-1'' = Some test_pair
   \<and> fst (removeTokenBindingKey ''kid-1'' full_store) = True
   \<and> getItem (asymmetricKeys (snd (removeTokenBindingKey ''kid-1'' full_store))) ''kid-1'' = None
   \<and> \<not> containsKey (asymmetricKeys (snd (removeTokenBindingKey ''kid-1'' full_store))) ''kid-1''
   \<and> symmetricKeys (snd (removeTokenBindingKey ''kid-1'' full_store)) = symmetricKeys full_store"
proof -
  have stored: "getItem (asymmetricKeys full_store) ''kid-1'' = Some test_pair"
    by (simp add: full_store_def getItem_def)
  from removeTokenBindingKey_removes [OF prod.collapse [symmetric], of "''kid-1''" full_store]
  have "getItem (asymmetricKeys (snd (removeTokenBindingKey ''kid-1'' full_store))) ''kid-1'' = None"
    and "fst (removeTokenBindingKey ''kid-1'' full_store)"
    and "fst (removeTokenBindingKey ''kid-1'' full_store)
           = (\<not> containsKey (asymmetricKeys (snd (removeTokenBindingKey ''kid-1'' full_store))) ''kid-1'')"
    and "symmetricKeys (snd (removeTokenBindingKey ''kid-1'' full_store)) = symmetricKeys full_store"
    by blast+
  with stored show ?thesis
    by simp
qed

section \<open>Properties of key generation\<close>

text \<open>
  C4. Whenever \<^verbatim>\<open>getPublicKeyThumbprint\<close> returns a thumbprint, the crypto capability
  has generated a pair with both halves, and the thumbprint is the base64url encoding of
  the SHA-256 digest of the JWK string of the object with exactly the fields \<open>e\<close>,
  \<open>kty\<close>, \<open>n\<close>, in that order, taken from the export of the public key of that pair.
  The entry stored in the asymmetric partition under exactly that thumbprint holds the
  public key of that pair and the re-import of the export of its private key; every
  other entry and the symmetric partition stay as they were. Conversely, when the
  capability answers each step, the call returns that thumbprint and that store.
\<close>

theorem getPublicKeyThumbprint_is_jwk_hash:
  assumes options: "keyOptions = (if keyType = Some StkJwk then RefreshTokenBinding cfg
                                  else AccessTokenBinding cfg)"
  shows "(getPublicKeyThumbprint bc cfg request keyType cache = (Inr kid, cache') \<longrightarrow>
            (\<exists>kp pub priv publicKeyJwk digest privateKeyJwk imported.
               generateKeyPair bc keyOptions EXTRACTABLE = Inr (Some kp)
               \<and> pairPublicKey kp = Some pub \<and> pairPrivateKey kp = Some priv
               \<and> exportJwk bc pub = Inr publicKeyJwk
               \<and> sha256Digest bc (getJwkString bc
                     [(''e'', get_prop publicKeyJwk ''e''),
                      (''kty'', get_prop publicKeyJwk ''kty''),
                      (''n'', get_prop publicKeyJwk ''n'')]) = Inr digest
               \<and> kid = urlEncodeArr digest
               \<and> exportJwk bc priv = Inr privateKeyJwk
               \<and> importJwk bc keyOptions privateKeyJwk False (privateKeyUsage keyOptions) = Inr imported
               \<and> getItem (asymmetricKeys cache') kid
                    = Some \<lparr>publicKey = pub, privateKey = imported,
                            requestMethod = resourceRequestMethod request,
                            requestUri = resourceRequestUri request\<rparr>
               \<and> (\<forall>k. k \<noteq> kid \<longrightarrow> getItem (asymmetricKeys cache') k = getItem (asymmetricKeys cache) k)
               \<and> symmetricKeys cache' = symmetricKeys cache))
         \<and> (\<forall>kp pub priv publicKeyJwk digest privateKeyJwk imported.
               generateKeyPair bc keyOptions EXTRACTABLE = Inr (Some kp)
               \<and> pairPublicKey kp = Some pub \<and> pairPrivateKey kp = Some priv
               \<and> exportJwk bc pub = Inr publicKeyJwk
               \<and> sha256Digest bc (getJwkString bc
                     [(''e'', get_prop publicKeyJwk ''e''),
                      (''kty'', get_prop publicKeyJwk ''kty''),
                      (''n'', get_prop publicKeyJwk ''n'')]) = Inr digest
               \<and> exportJwk bc priv = Inr privateKeyJwk
               \<and> importJwk bc keyOptions privateKeyJwk False (privateKeyUsage keyOptions) = Inr imported
             \<longrightarrow> getPublicKeyThumbprint bc cfg request keyType cache
                   = (Inr (urlEncodeArr digest),
                      cache\<lparr>asymmetricKeys := setItem (asymmetricKeys cache) (urlEncodeArr digest)
                        \<lparr>publicKey = pub, privateKey = imported,
                         requestMethod = resourceRequestMethod request,
                         requestUri = resourceRequestUri request\<rparr>\<rparr>))"
proof (intro conjI impI allI)
  assume run: "getPublicKeyThumbprint bc cfg request keyType cache = (Inr kid, cache')"
  from getPublicKeyThumbprint_success [OF run]
  obtain kp pub priv publicKeyJwk digest privateKeyJwk imported where
    generated: "generateKeyPair bc keyOptions EXTRACTABLE = Inr (Some kp)"
      "pairPublicKey kp = Some pub" "pairPrivateKey kp = Some priv" and
    export: "exportJwk bc pub = Inr publicKeyJwk" and
    digest: "sha256Digest bc (getJwkString bc
                 [(''e'', get_prop publicKeyJwk ''e''),
                  (''kty'', get_prop publicKeyJwk ''kty''),
                  (''n'', get_prop publicKeyJwk ''n'')]) = Inr digest" and
    kid: "kid = urlEncodeArr digest" and
    export_private: "exportJwk bc priv = Inr privateKeyJwk" and
    import: "importJwk bc keyOptions privateKeyJwk False (privateKeyUsage keyOptions) = Inr imported" and
    cache': "cache' = cache\<lparr>asymmetricKeys := (asymmetricKeys cache)(kid \<mapsto>
                 \<lparr>publicKey = pub, privateKey = imported,
                  requestMethod = resourceRequestMethod request,
                  requestUri = resourceRequestUri request\<rparr>)\<rparr>"
    unfolding options EXTRACTABLE_def by blast
  from cache' have stored: "getItem (asymmetricKeys cache') kid =
      Some \<lparr>publicKey = pub, privateKey = imported,
            requestMethod = resourceRequestMethod request,
            requestUri = resourceRequestUri request\<rparr>"
    and others: "\<forall>k. k \<noteq> kid \<longrightarrow> getItem (asymmetricKeys cache') k = getItem (asymmetricKeys cache) k"
    and symmetric: "symmetricKeys cache' = symmetricKeys cache"
    by (simp_all add: getItem_def)
  show "\<exists>kp pub priv publicKeyJwk digest privateKeyJwk imported.
               generateKeyPair bc keyOptions EXTRACTABLE = Inr (Some kp)
               \<and> pairPublicKey kp = Some pub \<and> pairPrivateKey kp = Some priv
               \<and> exportJwk bc pub = Inr publicKeyJwk
               \<and> sha256Digest bc (getJwkString bc
                     [(''e'', get_prop publicKeyJwk ''e''),
                      (''kty'', get_prop publicKeyJwk ''kty''),
                      (''n'', get_prop publicKeyJwk ''n'')]) = Inr digest
               \<and> kid = urlEncodeArr digest
               \<and> exportJwk bc priv = Inr privateKeyJwk
               \<and> importJwk bc keyOptions privateKeyJwk False (privateKeyUsage keyOptions) = Inr imported
               \<and> getItem (asymmetricKeys cache') kid
                    = Some \<lparr>publicKey = pub, privateKey = imported,
                            requestMethod = resourceRequestMethod request,
                            requestUri = resourceRequestUri request\<rparr>
               \<and> (\<forall>k. k \<noteq> kid \<longrightarrow> getItem (asymmetricKeys cache') k = getItem (asymmetricKeys cache) k)
               \<and> symmetricKeys cache' = symmetricKeys cache"
    using generated export digest kid export_private import stored others symmetric
    by (intro exI [of _ kp] exI [of _ pub] exI [of _ priv] exI [of _ publicKeyJwk]
          exI [of _ digest] exI [of _ privateKeyJwk] exI [of _ imported]) simp
next
  fix kp pub priv publicKeyJwk digest privateKeyJwk imported
  assume "generateKeyPair bc keyOptions EXTRACTABLE = Inr (Some kp)
               \<and> pairPublicKey kp = Some pub \<and> pairPrivateKey kp = Some priv
               \<and> exportJwk bc pub = Inr publicKeyJwk
               \<and> sha256Digest bc (getJwkString bc
                     [(''e'', get_prop publicKeyJwk ''e''),
                      (''kty'', get_prop publicKeyJwk ''kty''),
                      (''n'', get_prop publicKeyJwk ''n'')]) = Inr digest
               \<and> exportJwk bc priv = Inr privateKeyJwk
               \<and> importJwk bc keyOptions privateKeyJwk False (privateKeyUsage keyOptions) = Inr imported"
  then show "getPublicKeyThumbprint bc cfg request keyType cache
                   = (Inr (urlEncodeArr digest),
                      cache\<lparr>asymmetricKeys := setItem (asymmetricKeys cache) (urlEncodeArr digest)
                        \<lparr>publicKey = pub, privateKey = imported,
                         requestMethod = resourceRequestMethod request,
                         requestUri = resourceRequestUri request\<rparr>\<rparr>)"
    unfolding getPublicKeyThumbprint_def Let_def options [symmetric]
    by (simp add: generateKeyPairHelper_def both_halves_def and_then_def await_def hashString_def)
qed

theorem getPublicKeyThumbprint_is_jwk_hash_witness:
  "generateKeyPair test_crypto test_options EXTRACTABLE
     = Inr (Some \<lparr>pairPublicKey = Some \<lparr>kind = PublicKey, extractable = True, usages = [''verify''], material = 1\<rparr>,
                  pairPrivateKey = Some \<lparr>kind = PrivateKey, extractable = True, usages = [''sign''], material = 2\<rparr>\<rparr>)
   \<and> sha256Digest test_crypto (getJwkString test_crypto
        [(''e'', get_prop test_public_jwk ''e''),
         (''kty'', get_prop test_public_jwk ''kty''),
         (''n'', get_prop test_public_jwk ''n'')]) = Inr [22, 171, 205]
   \<and> urlEncodeArr [22, 171, 205] = ''FqvN''
   \<and> getPublicKeyThumbprint test_crypto test_config test_request None empty_store
     = (Inr ''FqvN'', empty_store\<lparr>asymmetricKeys := [''FqvN'' \<mapsto>
          \<lparr>publicKey = \<lparr>kind = PublicKey, extractable = True, usages = [''verify''], material = 1\<rparr>,
           privateKey = \<lparr>kind = PrivateKey, extractable = False, usages = [''sign''], material = 2\<rparr>,
           requestMethod = Some ''POST'',
           requestUri = Some ''https://resource.example/api?foo=bar''\<rparr>]\<rparr>)"
proof -
  let ?pub = "\<lparr>kind = PublicKey, extractable = True, usages = [''verify''], material = 1\<rparr>"
  let ?priv = "\<lparr>kind = PrivateKey, extractable = True, usages = [''sign''], material = 2\<rparr>"
  let ?imported = "\<lparr>kind = PrivateKey, extractable = False, usages = [''sign''], material = 2\<rparr>"
  have options: "test_options = (if None = Some StkJwk then RefreshTokenBinding test_config
                                 else AccessTokenBinding test_config)"
    by (simp add: test_config_def)
  have generated: "generateKeyPair test_crypto test_options EXTRACTABLE
     = Inr (Some \<lparr>pairPublicKey = Some ?pub, pairPrivateKey = Some ?priv\<rparr>)"
    by (simp add: test_crypto_def EXTRACTABLE_def)
  have export: "exportJwk test_crypto ?pub = Inr test_public_jwk"
    by (simp add: test_crypto_def)
  have digest: "sha256Digest test_crypto (getJwkString test_crypto
        [(''e'', get_prop test_public_jwk ''e''),
         (''kty'', get_prop test_public_jwk ''kty''),
         (''n'', get_prop test_public_jwk ''n'')]) = Inr [22, 171, 205]"
    by (simp add: test_crypto_def render_jwk_def test_public_jwk_def get_prop_def)
  have export_private: "exportJwk test_crypto ?priv = Inr (test_public_jwk @ [(''d'', JString ''c2Vj'')])"
    by (simp add: test_crypto_def)
  have import: "importJwk test_crypto test_options (test_public_jwk @ [(''d'', JString ''c2Vj'')])
                  False (privateKeyUsage test_options) = Inr ?imported"
    by (simp add: test_crypto_def test_options_def)
  have encoded: "urlEncodeArr [22, 171, 205] = ''FqvN''"
    by (simp add: sextet_def b64url_alphabet_def)
  note forward = getPublicKeyThumbprint_is_jwk_hash
    [OF options, of test_crypto test_request empty_store, THEN conjunct2, rule_format,
     where kp = "\<lparr>pairPublicKey = Some ?pub, pairPrivateKey = Some ?priv\<rparr>" and pub = ?pub
       and priv = ?priv and publicKeyJwk = test_public_jwk and digest = "[22, 171, 205]"
       and privateKeyJwk = "test_public_jwk @ [(''d'', JString ''c2Vj'')]" and imported = ?imported]
  have "getPublicKeyThumbprint test_crypto test_config test_request None empty_store
          = (Inr (urlEncodeArr [22, 171, 205]),
             empty_store\<lparr>asymmetricKeys := setItem (asymmetricKeys empty_store) (urlEncodeArr [22, 171, 205])
               \<lparr>publicKey = ?pub, privateKey = ?imported,
                requestMethod = resourceRequestMethod test_request,
                requestUri = resourceRequestUri test_request\<rparr>\<rparr>)"
    by (rule forward) (intro conjI generated export digest export_private import; simp)
  with generated digest encoded show ?thesis
    by (simp add: setItem_def empty_store_def test_request_def)
qed

text \<open>
  C5. The private key that \<^verbatim>\<open>getPublicKeyThumbprint\<close> caches is the key returned by
  \<^verbatim>\<open>importJwk\<close> called with \<^verbatim>\<open>extractable = false\<close>. With a crypto capability whose
  import gives a key the extractability it was asked for, the cached private key is not
  extractable, although the pair was generated extractable; and if no private key in
  the asymmetric partition was extractable before the call, none is after it.
\<close>

theorem cached_private_key_not_extractable:
  assumes contract: "\<forall>opts jwk ext us k. importJwk bc opts jwk ext us = Inr k \<longrightarrow> extractable k = ext"
    and run: "getPublicKeyThumbprint bc cfg request keyType cache = (result, cache')"
  shows "(\<forall>kid. result = Inr kid \<longrightarrow>
            (\<exists>entry keyOptions privateKeyJwk.
               getItem (asymmetricKeys cache') kid = Some entry
               \<and> importJwk bc keyOptions privateKeyJwk False (privateKeyUsage keyOptions)
                     = Inr (privateKey entry)
               \<and> \<not> extractable (privateKey entry)))
         \<and> ((\<forall>k e. getItem (asymmetricKeys cache) k = Some e \<longrightarrow> \<not> extractable (privateKey e))
              \<longrightarrow> (\<forall>k e. getItem (asymmetricKeys cache') k = Some e \<longrightarrow> \<not> extractable (privateKey e)))"
proof (cases result)
  case (Inl failure)
  with run have "cache' = cache"
    by (simp add: getPublicKeyThumbprint_failure)
  with Inl show ?thesis
    by simp
next
  case (Inr kid)
  with run have "getPublicKeyThumbprint bc cfg request keyType cache = (Inr kid, cache')"
    by simp
  from getPublicKeyThumbprint_success [OF this]
  obtain keyOptions pub privateKeyJwk imported where
    import: "importJwk bc keyOptions privateKeyJwk False (privateKeyUsage keyOptions) = Inr imported" and
    cache': "cache' = cache\<lparr>asymmetricKeys := (asymmetricKeys cache)(kid \<mapsto>
                 \<lparr>publicKey = pub, privateKey = imported,
                  requestMethod = resourceRequestMethod request,
                  requestUri = resourceRequestUri request\<rparr>)\<rparr>"
    by blast
  from contract import have unextractable: "\<not> extractable imported"
    by blast
  have stored: "getItem (asymmetricKeys cache') kid =
      Some \<lparr>publicKey = pub, privateKey = imported,
            requestMethod = resourceRequestMethod request,
            requestUri = resourceRequestUri request\<rparr>"
    using cache' by (simp add: getItem_def)
  have first: "\<exists>entry keyOptions privateKeyJwk.
               getItem (asymmetricKeys cache') kid = Some entry
               \<and> importJwk bc keyOptions privateKeyJwk False (privateKeyUsage keyOptions)
                     = Inr (privateKey entry)
               \<and> \<not> extractable (privateKey entry)"
    using stored import unextractable by force
  have second: "(\<forall>k e. getItem (asymmetricKeys cache) k = Some e \<longrightarrow> \<not> extractable (privateKey e))
              \<longrightarrow> (\<forall>k e. getItem (asymmetricKeys cache') k = Some e \<longrightarrow> \<not> extractable (privateKey e))"
    using cache' unextractable by (auto simp: getItem_def split: if_splits)
  from first second Inr show ?thesis
    by simp
qed

theorem cached_private_key_not_extractable_witness:
  "(\<exists>pub priv. generateKeyPair test_crypto test_options EXTRACTABLE
        = Inr (Some \<lparr>pairPublicKey = Some pub, pairPrivateKey = Some priv\<rparr>) \<and> extractable priv)
   \<and> fst (getPublicKeyThumbprint test_crypto test_config test_request None empty_store) = Inr ''FqvN''
   \<and> (\<exists>entry. getItem (asymmetricKeys (snd (getPublicKeyThumbprint test_crypto test_config
                   test_request None empty_store))) ''FqvN'' = Some entry
          \<and> \<not> extractable (privateKey entry))"
proof -
  have contract: "\<forall>opts jwk ext us k. importJwk test_crypto opts jwk ext us = Inr k \<longrightarrow> extractable k = ext"
    by (auto simp: test_crypto_def)
  have generated: "\<exists>pub priv. generateKeyPair test_crypto test_options EXTRACTABLE
        = Inr (Some \<lparr>pairPublicKey = Some pub, pairPrivateKey = Some priv\<rparr>) \<and> extractable priv"
    by (simp add: test_crypto_def EXTRACTABLE_def)
  have result: "fst (getPublicKeyThumbprint test_crypto test_config test_request None empty_store) = Inr ''FqvN''"
    by (simp add: getPublicKeyThumbprint_def Let_def test_crypto_def test_config_def
          test_options_def test_request_def empty_store_def generateKeyPairHelper_def
          EXTRACTABLE_def both_halves_def and_then_def await_def hashString_def
          test_public_jwk_def get_prop_def render_jwk_def setItem_def sextet_def
          b64url_alphabet_def)
  from cached_private_key_not_extractable [OF contract prod.collapse [symmetric]] result generated
  show ?thesis
    by blast
qed

text \<open>
  C6. Whenever \<^verbatim>\<open>generateKeyPair\<close> of the crypto capability throws, returns no pair, or
  returns a pair without its public or without its private half,
  \<^verbatim>\<open>getPublicKeyThumbprint\<close> fails with the key-generation-failed error: it returns no
  thumbprint and the key store is what it was.
\<close>

theorem getPublicKeyThumbprint_generation_failed:
  assumes options: "keyOptions = (if keyType = Some StkJwk then RefreshTokenBinding cfg else AccessTokenBinding cfg)"
    and malformed: "(\<exists>thrown. generateKeyPair bc keyOptions EXTRACTABLE = Inl thrown)
        \<or> generateKeyPair bc keyOptions EXTRACTABLE = Inr None
        \<or> (\<exists>kp. generateKeyPair bc keyOptions EXTRACTABLE = Inr (Some kp)
              \<and> (pairPublicKey kp = None \<or> pairPrivateKey kp = None))"
  shows "\<exists>message. getPublicKeyThumbprint bc cfg request keyType cache
           = (Inl (KeyGenerationFailed message), cache)"
  using malformed unfolding options getPublicKeyThumbprint_def Let_def
  by (auto simp: generateKeyPairHelper_def both_halves_def and_then_def split: option.splits)

theorem getPublicKeyThumbprint_generation_failed_witness:
  "generateKeyPair failing_crypto test_options EXTRACTABLE = Inl (ErrorInstance ''no entropy'')
   \<and> getPublicKeyThumbprint failing_crypto test_config test_request None full_store
       = (Inl (KeyGenerationFailed (Some ''no entropy'')), full_store)
   \<and> (\<exists>kp. generateKeyPair one_half_crypto test_options EXTRACTABLE = Inr (Some kp)
          \<and> pairPrivateKey kp = None)
   \<and> (\<exists>message. getPublicKeyThumbprint one_half_crypto test_config test_request None full_store
          = (Inl (KeyGenerationFailed message), full_store))"
proof -
  have options: "test_options = (if None = Some StkJwk then RefreshTokenBinding test_config
                                 else AccessTokenBinding test_config)"
    by (simp add: test_config_def)
  have thrown: "generateKeyPair failing_crypto test_options EXTRACTABLE = Inl (ErrorInstance ''no entropy'')"
    by (simp add: failing_crypto_def)
  have half: "\<exists>kp. generateKeyPair one_half_crypto test_options EXTRACTABLE = Inr (Some kp)
          \<and> pairPrivateKey kp = None"
    by (simp add: one_half_crypto_def)
  have run: "getPublicKeyThumbprint failing_crypto test_config test_request None full_store
       = (Inl (KeyGenerationFailed (Some ''no entropy'')), full_store)"
    by (simp add: getPublicKeyThumbprint_def Let_def failing_crypto_def test_config_def
          generateKeyPairHelper_def and_then_def)
  from half have "\<exists>message. getPublicKeyThumbprint one_half_crypto test_config test_request None full_store
          = (Inl (KeyGenerationFailed message), full_store)"
    by (intro getPublicKeyThumbprint_generation_failed [OF options]) blast
  with thrown half run show ?thesis
    by blast
qed

section \<open>Properties of signing\<close>

text \<open>What \<^verbatim>\<open>signJwt\<close> returns once the pair is found and the capabilities have answered.\<close>

lemma signJwt_run:
  assumes "getItem (asymmetricKeys cache) kid = Some cachedKeyPair"
    and "exportJwk bc (publicKey cachedKeyPair) = Inr publicKeyJwk"
    and "parse js (getJwkString bc publicKeyJwk) = Inr jwk"
  shows "signJwt bc cfg js payload kid cache =
           (let tokenString =
                  urlEncode (stringify js (JObject [(''alg'', get_prop publicKeyJwk ''alg''),
                                                    (''type'', JString ''jwk'')]))
                  @ ''.''
                  @ urlEncode (stringify js (JObject (assign payload ''cnf'' (JObject [(''jwk'', jwk)]))))
            in case sign bc (AccessTokenBinding cfg) (privateKey cachedKeyPair)
                      (stringToArrayBuffer tokenString) of
                 Inl thrown \<Rightarrow> Inl (Uncaught thrown)
               | Inr signatureBuffer \<Rightarrow> Inr (tokenString @ ''.'' @ urlEncodeArr signatureBuffer))"
  using assms
  by (simp add: signJwt_def Let_def and_then_def await_def CryptoKeyFormats_jwk_def
        split: sum.splits)

text \<open>What \<^verbatim>\<open>signJwt\<close> returns once the pair is found and its public key exported.\<close>

lemma signJwt_found:
  assumes "getItem (asymmetricKeys cache) kid = Some cachedKeyPair"
    and "exportJwk bc (publicKey cachedKeyPair) = Inr publicKeyJwk"
  shows "signJwt bc cfg js payload kid cache =
           (case parse js (getJwkString bc publicKeyJwk) of
              Inl thrown \<Rightarrow> Inl (Uncaught thrown)
            | Inr jwk \<Rightarrow>
                (let tokenString =
                       urlEncode (stringify js (JObject [(''alg'', get_prop publicKeyJwk ''alg''),
                                                         (''type'', JString ''jwk'')]))
                       @ ''.''
                       @ urlEncode (stringify js (JObject (assign payload ''cnf'' (JObject [(''jwk'', jwk)]))))
                 in case sign bc (AccessTokenBinding cfg) (privateKey cachedKeyPair)
                           (stringToArrayBuffer tokenString) of
                      Inl thrown \<Rightarrow> Inl (Uncaught thrown)
                    | Inr signatureBuffer \<Rightarrow> Inr (tokenString @ ''.'' @ urlEncodeArr signatureBuffer)))"
  using assms
  by (simp add: signJwt_def Let_def and_then_def await_def CryptoKeyFormats_jwk_def
        split: sum.splits)

text \<open>
  C3. Signing with a kid that has no entry in the asymmetric partition fails with the
  signing-key-not-found error. After \<^verbatim>\<open>getPublicKeyThumbprint\<close> has returned a kid, the
  key store it left holds under that kid the public key of the generated pair and the
  re-imported private key, and signing with that kid finds them: it never fails with the
  signing-key-not-found error, and its outcome is the outcome of the capability on that
  very pair. When the JWK string of the exported public key parses and the capability
  signs with the cached private key, the call succeeds with the token of header, payload
  and that signature; an exception of either step is what the call throws.
\<close>

theorem signJwt_unknown_and_generated_kid:
  "(getItem (asymmetricKeys cache) kid = None
      \<longrightarrow> signJwt bc cfg js payload kid cache = Inl SigningKeyNotFoundInStorage)
   \<and> (getPublicKeyThumbprint bc cfg request keyType cache = (Inr kid', cache')
      \<longrightarrow> (\<exists>kp pub imported publicKeyJwk.
             generateKeyPair bc (if keyType = Some StkJwk then RefreshTokenBinding cfg
                                 else AccessTokenBinding cfg) EXTRACTABLE = Inr (Some kp)
             \<and> pairPublicKey kp = Some pub
             \<and> getItem (asymmetricKeys cache') kid'
                  = Some \<lparr>publicKey = pub, privateKey = imported,
                          requestMethod = resourceRequestMethod request,
                          requestUri = resourceRequestUri request\<rparr>
             \<and> exportJwk bc pub = Inr publicKeyJwk
             \<and> signJwt bc cfg js payload kid' cache' \<noteq> Inl SigningKeyNotFoundInStorage
             \<and> signJwt bc cfg js payload kid' cache' =
                 (case parse js (getJwkString bc publicKeyJwk) of
                    Inl thrown \<Rightarrow> Inl (Uncaught thrown)
                  | Inr jwk \<Rightarrow>
                      (let tokenString =
                             urlEncode (stringify js (JObject [(''alg'', get_prop publicKeyJwk ''alg''),
                                                               (''type'', JString ''jwk'')]))
                             @ ''.''
                             @ urlEncode (stringify js
                                 (JObject (assign payload ''cnf'' (JObject [(''jwk'', jwk)]))))
                       in case sign bc (AccessTokenBinding cfg) imported
                                 (stringToArrayBuffer tokenString) of
                            Inl thrown \<Rightarrow> Inl (Uncaught thrown)
                          | Inr signature \<Rightarrow> Inr (tokenString @ ''.'' @ urlEncodeArr signature)))
             \<and> (\<forall>jwk signature.
                   parse js (getJwkString bc publicKeyJwk) = Inr jwk
                   \<and> sign bc (AccessTokenBinding cfg) imported
                        (stringToArrayBuffer
                           (urlEncode (stringify js (JObject [(''alg'', get_prop publicKeyJwk ''alg''),
                                                              (''type'', JString ''jwk'')]))
                            @ ''.''
                            @ urlEncode (stringify js
                                (JObject (assign payload ''cnf'' (JObject [(''jwk'', jwk)]))))))
                       = Inr signature
                 \<longrightarrow> signJwt bc cfg js payload kid' cache'
                       = Inr (urlEncode (stringify js (JObject [(''alg'', get_prop publicKeyJwk ''alg''),
                                                                (''type'', JString ''jwk'')]))
                              @ ''.''
                              @ urlEncode (stringify js
                                  (JObject (assign payload ''cnf'' (JObject [(''jwk'', jwk)]))))
                              @ ''.'' @ urlEncodeArr signature))))"
proof (intro conjI impI)
  assume "getItem (asymmetricKeys cache) kid = None"
  then show "signJwt bc cfg js payload kid cache = Inl SigningKeyNotFoundInStorage"
    by (simp add: signJwt_def)
next
  assume run: "getPublicKeyThumbprint bc cfg request keyType cache = (Inr kid', cache')"
  let ?keyOptions = "if keyType = Some StkJwk then RefreshTokenBinding cfg else AccessTokenBinding cfg"
  from getPublicKeyThumbprint_success [OF run]
  obtain kp pub imported publicKeyJwk where
    generated: "generateKeyPair bc ?keyOptions EXTRACTABLE = Inr (Some kp)" "pairPublicKey kp = Some pub" and
    export: "exportJwk bc pub = Inr publicKeyJwk" and
    cache': "cache' = cache\<lparr>asymmetricKeys := (asymmetricKeys cache)(kid' \<mapsto>
                 \<lparr>publicKey = pub, privateKey = imported,
                  requestMethod = resourceRequestMethod request,
                  requestUri = resourceRequestUri request\<rparr>)\<rparr>"
    unfolding EXTRACTABLE_def by blast
  define entry where "entry = \<lparr>publicKey = pub, privateKey = imported,
                  requestMethod = resourceRequestMethod request,
                  requestUri = resourceRequestUri request\<rparr>"
  have found: "getItem (asymmetricKeys cache') kid' = Some entry"
    using cache' by (simp add: getItem_def entry_def)
  have export': "exportJwk bc (publicKey entry) = Inr publicKeyJwk"
    using export by (simp add: entry_def)
  have cached_key: "privateKey entry = imported"
    by (simp add: entry_def)
  note outcome = signJwt_found [OF found export', of cfg js payload, unfolded cached_key]
  have not_missing: "signJwt bc cfg js payload kid' cache' \<noteq> Inl SigningKeyNotFoundInStorage"
    unfolding outcome by (simp add: Let_def split: sum.splits)
  have success: "\<forall>jwk signature.
                   parse js (getJwkString bc publicKeyJwk) = Inr jwk
                   \<and> sign bc (AccessTokenBinding cfg) imported
                        (stringToArrayBuffer
                           (urlEncode (stringify js (JObject [(''alg'', get_prop publicKeyJwk ''alg''),
                                                              (''type'', JString ''jwk'')]))
                            @ ''.''
                            @ urlEncode (stringify js
                                (JObject (assign payload ''cnf'' (JObject [(''jwk'', jwk)]))))))
                       = Inr signature
                 \<longrightarrow> signJwt bc cfg js payload kid' cache'
                       = Inr (urlEncode (stringify js (JObject [(''alg'', get_prop publicKeyJwk ''alg''),
                                                                (''type'', JString ''jwk'')]))
                              @ ''.''
                              @ urlEncode (stringify js
                                  (JObject (assign payload ''cnf'' (JObject [(''jwk'', jwk)]))))
                              @ ''.'' @ urlEncodeArr signature)"
    unfolding outcome by (simp add: Let_def)
  show "\<exists>kp pub imported publicKeyJwk.
             generateKeyPair bc ?keyOptions EXTRACTABLE = Inr (Some kp)
             \<and> pairPublicKey kp = Some pub
             \<and> getItem (asymmetricKeys cache') kid'
                  = Some \<lparr>publicKey = pub, privateKey = imported,
                          requestMethod = resourceRequestMethod request,
                          requestUri = resourceRequestUri request\<rparr>
             \<and> exportJwk bc pub = Inr publicKeyJwk
             \<and> signJwt bc cfg js payload kid' cache' \<noteq> Inl SigningKeyNotFoundInStorage
             \<and> signJwt bc cfg js payload kid' cache' =
                 (case parse js (getJwkString bc publicKeyJwk) of
                    Inl thrown \<Rightarrow> Inl (Uncaught thrown)
                  | Inr jwk \<Rightarrow>
                      (let tokenString =
                             urlEncode (stringify js (JObject [(''alg'', get_prop publicKeyJwk ''alg''),
                                                               (''type'', JString ''jwk'')]))
                             @ ''.''
                             @ urlEncode (stringify js
                                 (JObject (assign payload ''cnf'' (JObject [(''jwk'', jwk)]))))
                       in case sign bc (AccessTokenBinding cfg) imported
                                 (stringToArrayBuffer tokenString) of
                            Inl thrown \<Rightarrow> Inl (Uncaught thrown)
                          | Inr signature \<Rightarrow> Inr (tokenString @ ''.'' @ urlEncodeArr signature)))
             \<and> (\<forall>jwk signature.
                   parse js (getJwkString bc publicKeyJwk) = Inr jwk
                   \<and> sign bc (AccessTokenBinding cfg) imported
                        (stringToArrayBuffer
                           (urlEncode (stringify js (JObject [(''alg'', get_prop publicKeyJwk ''alg''),
                                                              (''type'', JString ''jwk'')]))
                            @ ''.''
                            @ urlEncode (stringify js
                                (JObject (assign payload ''cnf'' (JObject [(''jwk'', jwk)]))))))
                       = Inr signature
                 \<longrightarrow> signJwt bc cfg js payload kid' cache'
                       = Inr (urlEncode (stringify js (JObject [(''alg'', get_prop publicKeyJwk ''alg''),
                                                                (''type'', JString ''jwk'')]))
                              @ ''.''
                              @ urlEncode (stringify js
                                  (JObject (assign payload ''cnf'' (JObject [(''jwk'', jwk)]))))
                              @ ''.'' @ urlEncodeArr signature))"
    using generated found [unfolded entry_def] export not_missing outcome success
    by (intro exI [of _ kp] exI [of _ pub] exI [of _ imported] exI [of _ publicKeyJwk] conjI)
qed

theorem signJwt_unknown_and_generated_kid_witness:
  "getItem (asymmetricKeys full_store) ''kid-2'' = None
   \<and> signJwt test_crypto test_config test_json [(''at'', JString ''tok'')] ''kid-2'' full_store
       = Inl SigningKeyNotFoundInStorage
   \<and> fst (getPublicKeyThumbprint test_crypto test_config test_request None full_store) = Inr ''FqvN''
   \<and> signJwt test_crypto test_config test_json [(''at'', JString ''tok'')] ''FqvN''
        (snd (getPublicKeyThumbprint test_crypto test_config test_request None full_store))
       \<noteq> Inl SigningKeyNotFoundInStorage
   \<and> signJwt test_crypto test_config test_json [(''at'', JString ''tok'')] ''FqvN''
        (snd (getPublicKeyThumbprint test_crypto test_config test_request None full_store))
       = Inr ''YWxnOlJTMjU2O3R5cGU6andrOw.YXQ6dG9rO2NuZjo7.KwcJ''"
proof -
  let ?run = "getPublicKeyThumbprint test_crypto test_config test_request None full_store"
  have absent: "getItem (asymmetricKeys full_store) ''kid-2'' = None"
    by (simp add: full_store_def getItem_def)
  have run: "?run = (Inr ''FqvN'', full_store\<lparr>asymmetricKeys := (asymmetricKeys full_store)(''FqvN'' \<mapsto>
          \<lparr>publicKey = \<lparr>kind = PublicKey, extractable = True, usages = [''verify''], material = 1\<rparr>,
           privateKey = \<lparr>kind = PrivateKey, extractable = False, usages = [''sign''], material = 2\<rparr>,
           requestMethod = Some ''POST'',
           requestUri = Some ''https://resource.example/api?foo=bar''\<rparr>)\<rparr>)"
    by (simp add: getPublicKeyThumbprint_def Let_def test_crypto_def test_config_def
          test_options_def test_request_def generateKeyPairHelper_def
          EXTRACTABLE_def both_halves_def and_then_def await_def hashString_def
          test_public_jwk_def get_prop_def render_jwk_def setItem_def sextet_def
          b64url_alphabet_def)
  have token: "signJwt test_crypto test_config test_json [(''at'', JString ''tok'')] ''FqvN'' (snd ?run)
       = Inr ''YWxnOlJTMjU2O3R5cGU6andrOw.YXQ6dG9rO2NuZjo7.KwcJ''"
    unfolding run
    by (simp add: signJwt_def getItem_def Let_def and_then_def await_def test_crypto_def
          test_json_def test_config_def test_public_jwk_def render_jwk_def get_prop_def
          CryptoKeyFormats_jwk_def urlEncode_def stringToArrayBuffer_def sextet_def
          b64url_alphabet_def)
  from signJwt_unknown_and_generated_kid
    [of full_store "''kid-2''" test_crypto test_config test_json "[(''at'', JString ''tok'')]"
        test_request None "''FqvN''" "snd ?run"]
    absent run
  have "signJwt test_crypto test_config test_json [(''at'', JString ''tok'')] ''kid-2'' full_store
       = Inl SigningKeyNotFoundInStorage"
    and "signJwt test_crypto test_config test_json [(''at'', JString ''tok'')] ''FqvN'' (snd ?run)
       \<noteq> Inl SigningKeyNotFoundInStorage"
    by auto
  with absent run token show ?thesis
    by simp
qed

text \<open>
  C8. For a kid with a cached pair, \<^verbatim>\<open>signJwt\<close> returns three segments joined by two
  dots, none of the segments containing a dot: the base64url encoding of the JSON text
  of the header \<open>{alg, type}\<close>, with \<open>alg\<close> read from the exported public JWK and \<open>type\<close>
  equal to \<open>jwk\<close>; the base64url encoding of the JSON text of the payload, which carries
  the public JWK under \<open>cnf.jwk\<close> and is otherwise the payload given; and the base64url
  encoding of the signature that the capability computes with the cached private key
  over the bytes of the first two segments joined by a dot.
\<close>

theorem signJwt_compact_jwt:
  assumes found: "getItem (asymmetricKeys cache) kid = Some cachedKeyPair"
    and exported: "exportJwk bc (publicKey cachedKeyPair) = Inr publicKeyJwk"
    and parsed: "parse js (getJwkString bc publicKeyJwk) = Inr jwk"
    and header: "header = [(''alg'', get_prop publicKeyJwk ''alg''), (''type'', JString ''jwk'')]"
    and signedPayload: "signedPayload = assign payload ''cnf'' (JObject [(''jwk'', jwk)])"
    and signed: "sign bc (AccessTokenBinding cfg) (privateKey cachedKeyPair)
                   (stringToArrayBuffer (urlEncode (stringify js (JObject header)) @ ''.''
                      @ urlEncode (stringify js (JObject signedPayload))))
                 = Inr signature"
  shows "signJwt bc cfg js payload kid cache
           = Inr (urlEncode (stringify js (JObject header)) @ ''.''
                  @ urlEncode (stringify js (JObject signedPayload)) @ ''.''
                  @ urlEncodeArr signature)
         \<and> CHR ''.'' \<notin> set (urlEncode (stringify js (JObject header)))
         \<and> CHR ''.'' \<notin> set (urlEncode (stringify js (JObject signedPayload)))
         \<and> CHR ''.'' \<notin> set (urlEncodeArr signature)
         \<and> get_prop signedPayload ''cnf'' = JObject [(''jwk'', jwk)]
         \<and> (\<forall>k. k \<noteq> ''cnf'' \<longrightarrow> get_prop signedPayload k = get_prop payload k)"
proof -
  have "signJwt bc cfg js payload kid cache
           = Inr (urlEncode (stringify js (JObject header)) @ ''.''
                  @ urlEncode (stringify js (JObject signedPayload)) @ ''.''
                  @ urlEncodeArr signature)"
    using signJwt_run [OF found exported parsed, of cfg payload] signed
    by (simp add: Let_def header signedPayload)
  moreover have "get_prop signedPayload ''cnf'' = JObject [(''jwk'', jwk)]"
    unfolding signedPayload by (rule get_prop_assign_same)
  moreover have "\<forall>k. k \<noteq> ''cnf'' \<longrightarrow> get_prop signedPayload k = get_prop payload k"
    unfolding signedPayload by (simp add: get_prop_assign_other)
  ultimately show ?thesis
    by (simp add: urlEncode_no_dot urlEncodeArr_no_dot)
qed

theorem signJwt_compact_jwt_witness:
  "getItem (asymmetricKeys full_store) ''kid-1'' = Some test_pair
   \<and> exportJwk test_crypto (publicKey test_pair) = Inr test_public_jwk
   \<and> sign test_crypto (AccessTokenBinding test_config) (privateKey test_pair)
        (stringToArrayBuffer ''YWxnOlJTMjU2O3R5cGU6andrOw.YXQ6dG9rO2NuZjo7'') = Inr [43, 7, 9]
   \<and> signJwt test_crypto test_config test_json [(''at'', JString ''tok'')] ''kid-1'' full_store
       = Inr ''YWxnOlJTMjU2O3R5cGU6andrOw.YXQ6dG9rO2NuZjo7.KwcJ''"
proof -
  have found: "getItem (asymmetricKeys full_store) ''kid-1'' = Some test_pair"
    by (simp add: full_store_def getItem_def)
  have exported: "exportJwk test_crypto (publicKey test_pair) = Inr test_public_jwk"
    by (simp add: test_crypto_def test_pair_def)
  have parsed: "parse test_json (getJwkString test_crypto test_public_jwk)
                  = Inr (JString ''alg:RS256;e:AQAB;ext:;kty:RSA;n:q83v;'')"
    by (simp add: test_json_def test_crypto_def render_jwk_def test_public_jwk_def)
  have h: "urlEncode (stringify test_json (JObject [(''alg'', get_prop test_public_jwk ''alg''),
              (''type'', JString ''jwk'')])) = ''YWxnOlJTMjU2O3R5cGU6andrOw''"
    by (simp add: urlEncode_def stringToArrayBuffer_def test_json_def render_jwk_def
          test_public_jwk_def get_prop_def sextet_def b64url_alphabet_def)
  have p: "urlEncode (stringify test_json (JObject (assign [(''at'', JString ''tok'')] ''cnf''
              (JObject [(''jwk'', JString ''alg:RS256;e:AQAB;ext:;kty:RSA;n:q83v;'')]))))
            = ''YXQ6dG9rO2NuZjo7''"
    by (simp add: urlEncode_def stringToArrayBuffer_def test_json_def render_jwk_def
          sextet_def b64url_alphabet_def)
  have signed: "sign test_crypto (AccessTokenBinding test_config) (privateKey test_pair)
        (stringToArrayBuffer ''YWxnOlJTMjU2O3R5cGU6andrOw.YXQ6dG9rO2NuZjo7'') = Inr [43, 7, 9]"
    by (simp add: test_crypto_def stringToArrayBuffer_def)
  have s: "urlEncodeArr [43, 7, 9] = ''KwcJ''"
    by (simp add: sextet_def b64url_alphabet_def)
  from signJwt_compact_jwt [OF found exported parsed refl refl, of test_config "[(''at'', JString ''tok'')]" "[43, 7, 9]"]
    found exported signed h p s
  show ?thesis
    by simp
qed

section \<open>Properties of the PoP token generator\<close>

lemma takeWhile_until:
  "\<forall>x\<in>set xs. P x \<Longrightarrow> \<not> P y \<Longrightarrow> takeWhile P (xs @ y # ys) = xs"
  by (induction xs) simp_all

lemma dropWhile_until:
  "\<forall>x\<in>set xs. P x \<Longrightarrow> \<not> P y \<Longrightarrow> dropWhile P (xs @ y # ys) = y # ys"
  by (induction xs) simp_all

lemma takeWhile_whole: "\<forall>x\<in>set xs. P x \<Longrightarrow> takeWhile P xs = xs"
  by (induction xs) simp_all

text \<open>The parts of a URL with a scheme, an authority, a path and a query string.\<close>

lemma getUrlComponents_with_query:
  assumes scheme: "scheme \<noteq> []" "\<forall>c\<in>set scheme. c \<notin> set '':/?#''"
    and host: "\<forall>c\<in>set host. c \<notin> set ''/?#''"
    and path: "\<forall>c\<in>set path. c \<notin> set ''?#''" "path = [] \<or> hd path = CHR ''/''"
    and query: "\<forall>c\<in>set query. c \<noteq> CHR ''#''"
  shows "getUrlComponents (scheme @ ''://'' @ host @ path @ ''?'' @ query)
           = \<lparr>Protocol = scheme @ '':'', HostNameAndPort = host, AbsolutePath = path,
              QueryString = query\<rparr>"
proof -
  let ?tail = "host @ path @ ''?'' @ query"
  have s1: "takeWhile (\<lambda>c. c \<notin> set '':/?#'') (scheme @ ''://'' @ ?tail) = scheme"
    using takeWhile_until [of scheme "\<lambda>c. c \<notin> set '':/?#''" "CHR '':''" "''//'' @ ?tail"] scheme
    by simp
  have s2: "dropWhile (\<lambda>c. c \<notin> set '':/?#'') (scheme @ ''://'' @ ?tail) = ''://'' @ ?tail"
    using dropWhile_until [of scheme "\<lambda>c. c \<notin> set '':/?#''" "CHR '':''" "''//'' @ ?tail"] scheme
    by simp
  have h: "takeWhile (\<lambda>c. c \<notin> set ''/?#'') ?tail = host
           \<and> dropWhile (\<lambda>c. c \<notin> set ''/?#'') ?tail = path @ ''?'' @ query"
  proof (cases path)
    case Nil
    then show ?thesis
      using takeWhile_until [of host "\<lambda>c. c \<notin> set ''/?#''" "CHR ''?''" query]
        dropWhile_until [of host "\<lambda>c. c \<notin> set ''/?#''" "CHR ''?''" query] host
      by simp
  next
    case (Cons a rest)
    with path have "a = CHR ''/''"
      by simp
    with Cons show ?thesis
      using takeWhile_until [of host "\<lambda>c. c \<notin> set ''/?#''" "CHR ''/''" "rest @ ''?'' @ query"]
        dropWhile_until [of host "\<lambda>c. c \<notin> set ''/?#''" "CHR ''/''" "rest @ ''?'' @ query"] host
      by simp
  qed
  have p1: "takeWhile (\<lambda>c. c \<notin> set ''?#'') (path @ ''?'' @ query) = path"
    using takeWhile_until [of path "\<lambda>c. c \<notin> set ''?#''" "CHR ''?''" query] path
    by simp
  have p2: "dropWhile (\<lambda>c. c \<notin> set ''?#'') (path @ ''?'' @ query) = ''?'' @ query"
    using dropWhile_until [of path "\<lambda>c. c \<notin> set ''?#''" "CHR ''?''" query] path
    by simp
  have q: "takeWhile (\<lambda>c. c \<noteq> CHR ''#'') query = query"
    using takeWhile_whole [of query "\<lambda>c. c \<noteq> CHR ''#''"] query
    by simp
  show ?thesis
    unfolding getUrlComponents_def Let_def s1 s2
    using scheme(1) h p1 p2 q by simp
qed

text \<open>
  C7. For a request with a nonce, the method \<open>POST\<close> and a resource URL with a query
  string, the payload that \<^verbatim>\<open>signPopToken\<close> signs has exactly the fields \<open>at\<close>, \<open>ts\<close>,
  \<open>m\<close>, \<open>u\<close>, \<open>nonce\<close>, \<open>p\<close>, \<open>q\<close>, \<open>client_claims\<close>, with \<open>u\<close> the host and port, \<open>p\<close> the
  absolute path and \<open>q\<close> the pair of an empty list and the query string without the
  question mark. For a request without method, URL, claims and nonce, the fields \<open>m\<close>,
  \<open>u\<close>, \<open>p\<close>, \<open>q\<close>, \<open>client_claims\<close> are undefined and the nonce is the generated GUID.
\<close>

theorem signPopToken_payload:
  "(scheme \<noteq> [] \<and> (\<forall>c\<in>set scheme. c \<notin> set '':/?#'') \<and> (\<forall>c\<in>set host. c \<notin> set ''/?#'')
      \<and> (\<forall>c\<in>set path. c \<notin> set ''?#'') \<and> (path = [] \<or> hd path = CHR ''/'')
      \<and> (\<forall>c\<in>set query. c \<noteq> CHR ''#'') \<and> nonce \<noteq> []
    \<longrightarrow> shr_claims newGuid nowSeconds accessToken
          \<lparr>resourceRequestMethod = Some ''POST'',
           resourceRequestUri = Some (scheme @ ''://'' @ host @ path @ ''?'' @ query),
           shrClaims = claims,
           shrNonce = Some nonce\<rparr>
        = [(''at'', JString accessToken),
           (''ts'', JNumber nowSeconds),
           (''m'', JString ''POST''),
           (''u'', JString host),
           (''nonce'', JString nonce),
           (''p'', JString path),
           (''q'', JArray [JArray [], JString query]),
           (''client_claims'', optional_string claims)])
   \<and> shr_claims newGuid nowSeconds accessToken
        \<lparr>resourceRequestMethod = None, resourceRequestUri = None, shrClaims = None, shrNonce = None\<rparr>
      = [(''at'', JString accessToken),
         (''ts'', JNumber nowSeconds),
         (''m'', JUndefined),
         (''u'', JUndefined),
         (''nonce'', JString newGuid),
         (''p'', JUndefined),
         (''q'', JUndefined),
         (''client_claims'', JUndefined)]
   \<and> signPopToken bc cfg js newGuid nowSeconds kid accessToken request cache
      = signJwt bc cfg js (shr_claims newGuid nowSeconds accessToken request) kid cache"
proof (intro conjI impI)
  assume a: "scheme \<noteq> [] \<and> (\<forall>c\<in>set scheme. c \<notin> set '':/?#'') \<and> (\<forall>c\<in>set host. c \<notin> set ''/?#'')
      \<and> (\<forall>c\<in>set path. c \<notin> set ''?#'') \<and> (path = [] \<or> hd path = CHR ''/'')
      \<and> (\<forall>c\<in>set query. c \<noteq> CHR ''#'') \<and> nonce \<noteq> []"
  then have "getUrlComponents (scheme @ ''://'' @ host @ path @ ''?'' @ query)
           = \<lparr>Protocol = scheme @ '':'', HostNameAndPort = host, AbsolutePath = path,
              QueryString = query\<rparr>"
    by (intro getUrlComponents_with_query) simp_all
  with a show "shr_claims newGuid nowSeconds accessToken
          \<lparr>resourceRequestMethod = Some ''POST'',
           resourceRequestUri = Some (scheme @ ''://'' @ host @ path @ ''?'' @ query),
           shrClaims = claims,
           shrNonce = Some nonce\<rparr>
        = [(''at'', JString accessToken),
           (''ts'', JNumber nowSeconds),
           (''m'', JString ''POST''),
           (''u'', JString host),
           (''nonce'', JString nonce),
           (''p'', JString path),
           (''q'', JArray [JArray [], JString query]),
           (''client_claims'', optional_string claims)]"
    by (simp add: shr_claims_def optional_string_def)
next
  show "shr_claims newGuid nowSeconds accessToken
        \<lparr>resourceRequestMethod = None, resourceRequestUri = None, shrClaims = None, shrNonce = None\<rparr>
      = [(''at'', JString accessToken),
         (''ts'', JNumber nowSeconds),
         (''m'', JUndefined),
         (''u'', JUndefined),
         (''nonce'', JString newGuid),
         (''p'', JUndefined),
         (''q'', JUndefined),
         (''client_claims'', JUndefined)]"
    by (simp add: shr_claims_def optional_string_def)
next
  show "signPopToken bc cfg js newGuid nowSeconds kid accessToken request cache
      = signJwt bc cfg js (shr_claims newGuid nowSeconds accessToken request) kid cache"
    by (simp add: signPopToken_def)
qed

theorem signPopToken_payload_witness:
  "shr_claims ''guid-0'' 1700000000 ''tok'' test_request
     = [(''at'', JString ''tok''),
        (''ts'', JNumber 1700000000),
        (''m'', JString ''POST''),
        (''u'', JString ''resource.example''),
        (''nonce'', JString ''nonce-1''),
        (''p'', JString ''/api''),
        (''q'', JArray [JArray [], JString ''foo=bar'']),
        (''client_claims'', JUndefined)]"
  using signPopToken_payload
    [of "''https''" "''resource.example''" "''/api''" "''foo=bar''" "''nonce-1''"
        "''guid-0''" 1700000000 "''tok''" None]
  by (simp add: test_request_def optional_string_def)

section \<open>Properties of the token endpoint request\<close>

text \<open>The calls of one run of \<^verbatim>\<open>sendPostRequest\<close>, by the outcome of the pre-flight check and of the transmission.\<close>

lemma sendPostRequest_rejected:
  assumes "preProcess env (cacheManager this) thumbprint = Inl throttled"
  shows "sendPostRequest env hn thumbprint tokenEndpoint options corrId this
           = (Inl throttled, this\<lparr>calls := calls this @ [PreProcess thumbprint]\<rparr>)"
  using assms by (simp add: sendPostRequest_def Let_def)

lemma sendPostRequest_network_failure:
  assumes "preProcess env (cacheManager this) thumbprint = Inr cache1"
    and "sendPostRequestAsync env tokenEndpoint options = Inl e"
    and "sendPostRequest env hn thumbprint tokenEndpoint options corrId this = (result, this')"
  shows "result = Inl (case e of
                         NetworkError inner responseHeaders httpStatus \<Rightarrow> ThrownAuthError inner
                       | ThrownAuthError a \<Rightarrow> ThrownAuthError a
                       | ThrownOther other \<Rightarrow> ThrownAuthError ClientAuthError_networkError)
         \<and> (\<exists>telemetry. calls this' = calls this @ PreProcess thumbprint
                  # SendPostRequestAsync tokenEndpoint options # telemetry
              \<and> (\<forall>c\<in>set telemetry. \<exists>f cid. c = AddFields f cid))"
  using assms
  by (cases e) (auto simp: sendPostRequest_def Let_def addFields_def split: option.splits)

lemma sendPostRequest_answered:
  assumes "preProcess env (cacheManager this) thumbprint = Inr cache1"
    and "sendPostRequestAsync env tokenEndpoint options = Inr response"
    and "sendPostRequest env hn thumbprint tokenEndpoint options corrId this = (result, this')"
  shows "(\<exists>telemetry. calls this' = calls this @ PreProcess thumbprint
                  # SendPostRequestAsync tokenEndpoint options # telemetry
                  @ [PostProcess thumbprint response]
              \<and> (\<forall>c\<in>set telemetry. \<exists>f cid. c = AddFields f cid))
         \<and> (case postProcess env cache1 thumbprint response of
               Inl e \<Rightarrow> result = Inl e
             | Inr cache2 \<Rightarrow> result = Inr response \<and> cacheManager this' = cache2)"
  using assms
  by (cases "performanceClient this")
     (auto simp: sendPostRequest_def Let_def addFields_def split: sum.splits)

text \<open>
  C9. Every run of \<^verbatim>\<open>sendPostRequest\<close> first calls the pre-flight check on the thumbprint
  of the request. If that check throws, the exception is the outcome and nothing else is
  called, so the request is not transmitted: a transmission is in the calls only if the
  check passed. The post-flight update is in the calls only if the network client
  returned a response; it is then called with the same thumbprint and that response,
  as the last call, after the transmission. If the network client throws, the run
  throws, and the post-flight update is not called.
\<close>

theorem sendPostRequest_preflight_postflight:
  assumes run: "sendPostRequest env hn thumbprint tokenEndpoint options corrId this = (result, this')"
  shows "\<exists>rest. calls this' = calls this @ PreProcess thumbprint # rest
      \<and> (\<forall>throttled. preProcess env (cacheManager this) thumbprint = Inl throttled
            \<longrightarrow> result = Inl throttled \<and> rest = [])
      \<and> (\<forall>endpoint opts. SendPostRequestAsync endpoint opts \<in> set rest
            \<longrightarrow> (\<exists>cache1. preProcess env (cacheManager this) thumbprint = Inr cache1))
      \<and> (\<forall>t response. PostProcess t response \<in> set rest
            \<longrightarrow> t = thumbprint
                \<and> sendPostRequestAsync env tokenEndpoint options = Inr response
                \<and> (\<exists>telemetry. rest = SendPostRequestAsync tokenEndpoint options # telemetry
                                        @ [PostProcess thumbprint response]
                      \<and> (\<forall>c\<in>set telemetry. \<exists>f cid. c = AddFields f cid)))
      \<and> (\<forall>cache1 response. preProcess env (cacheManager this) thumbprint = Inr cache1
              \<and> sendPostRequestAsync env tokenEndpoint options = Inr response
            \<longrightarrow> PostProcess thumbprint response \<in> set rest)
      \<and> (\<forall>e. sendPostRequestAsync env tokenEndpoint options = Inl e
            \<longrightarrow> (\<exists>e'. result = Inl e') \<and> (\<forall>t response. PostProcess t response \<notin> set rest))"
proof (cases "preProcess env (cacheManager this) thumbprint")
  case (Inl throttled)
  from sendPostRequest_rejected [OF Inl, of hn tokenEndpoint options corrId] run
  have "result = Inl throttled" and "calls this' = calls this @ PreProcess thumbprint # []"
    by auto
  with Inl show ?thesis
    by (intro exI [of _ "[]"]) simp
next
  case (Inr cache1)
  show ?thesis
  proof (cases "sendPostRequestAsync env tokenEndpoint options")
    case (Inl e)
    from sendPostRequest_network_failure [OF Inr Inl run]
    obtain telemetry e' where
      result: "result = Inl e'" and
      calls: "calls this' = calls this @ PreProcess thumbprint
                  # SendPostRequestAsync tokenEndpoint options # telemetry" and
      telemetry: "\<forall>c\<in>set telemetry. \<exists>f cid. c = AddFields f cid"
      by blast
    from telemetry have no_post: "\<forall>t response. PostProcess t response \<notin> set telemetry"
      by auto
    show ?thesis
      using Inr Inl result calls no_post
      by (intro exI [of _ "SendPostRequestAsync tokenEndpoint options # telemetry"]) auto
  next
    case (Inr response)
    from sendPostRequest_answered [OF \<open>preProcess env (cacheManager this) thumbprint = Inr cache1\<close> Inr run]
    obtain telemetry where
      calls: "calls this' = calls this @ PreProcess thumbprint
                  # SendPostRequestAsync tokenEndpoint options # telemetry
                  @ [PostProcess thumbprint response]" and
      telemetry: "\<forall>c\<in>set telemetry. \<exists>f cid. c = AddFields f cid"
      by blast
    from telemetry have no_post: "\<forall>t r. PostProcess t r \<notin> set telemetry"
      by auto
    show ?thesis
      using \<open>preProcess env (cacheManager this) thumbprint = Inr cache1\<close> Inr calls telemetry no_post
      by (intro exI [of _ "SendPostRequestAsync tokenEndpoint options # telemetry
                            @ [PostProcess thumbprint response]"]) auto
  qed
qed

theorem sendPostRequest_preflight_postflight_witness:
  "preProcess (throttling_double 1000 (Inr test_response)) (cacheManager throttled_client) ''T''
     = Inl (ThrownAuthError (AuthError ''throttled''))
   \<and> fst (sendPostRequest (throttling_double 1000 (Inr test_response)) test_header_names ''T''
            ''https://login.example/token'' test_options_post ''cid'' throttled_client)
       = Inl (ThrownAuthError (AuthError ''throttled''))
   \<and> calls (snd (sendPostRequest (throttling_double 1000 (Inr test_response)) test_header_names ''T''
            ''https://login.example/token'' test_options_post ''cid'' throttled_client))
       = [PreProcess ''T'']
   \<and> calls (snd (sendPostRequest (throttling_double 1000 (Inr test_response)) test_header_names ''T''
            ''https://login.example/token'' test_options_post ''cid'' fresh_client))
       = [PreProcess ''T'',
          SendPostRequestAsync ''https://login.example/token'' test_options_post,
          AddFields [(''refreshTokenSize'', JNumber 2), (''httpVerToken'', JString []),
                     (''requestId'', JString [])] ''cid'',
          PostProcess ''T'' test_response]"
proof -
  let ?env = "throttling_double 1000 (Inr test_response)"
  let ?throttled = "sendPostRequest ?env test_header_names ''T''
            ''https://login.example/token'' test_options_post ''cid'' throttled_client"
  have pre: "preProcess ?env (cacheManager throttled_client) ''T''
     = Inl (ThrownAuthError (AuthError ''throttled''))"
    by (simp add: throttling_double_def throttled_client_def)
  from sendPostRequest_preflight_postflight [OF prod.collapse [symmetric], of ?env test_header_names
      "''T''" "''https://login.example/token''" test_options_post "''cid''" throttled_client] pre
  have "fst ?throttled = Inl (ThrownAuthError (AuthError ''throttled''))"
    and "calls (snd ?throttled) = calls throttled_client @ [PreProcess ''T'']"
    by auto
  moreover have "calls (snd (sendPostRequest ?env test_header_names ''T''
            ''https://login.example/token'' test_options_post ''cid'' fresh_client))
       = [PreProcess ''T'',
          SendPostRequestAsync ''https://login.example/token'' test_options_post,
          AddFields [(''refreshTokenSize'', JNumber 2), (''httpVerToken'', JString []),
                     (''requestId'', JString [])] ''cid'',
          PostProcess ''T'' test_response]"
    by (simp add: sendPostRequest_def Let_def throttling_double_def fresh_client_def
          test_response_def addFields_def refreshTokenSize_def get_prop_def header_or_empty_def
          test_header_names_def)
  ultimately show ?thesis
    using pre by (simp add: throttled_client_def)
qed

section \<open>Properties of the sign-in controller\<close>

text \<open>
  C10. \<^verbatim>\<open>signIn\<close> never rejects for a failure of the flow: it always resolves to a
  result. A missing user name gives the result that \<^verbatim>\<open>createWithError\<close> makes of the
  invalid-argument error; whatever the flow throws, be it thrown by the start of the
  flow, by the submission of the password or for a start result of an unknown type, is
  caught and gives the result that \<^verbatim>\<open>createWithError\<close> makes of it.
\<close>

theorem signIn_never_rejects:
  "(\<exists>result. signIn this signInOptions = Inr result)
   \<and> (truthy (username signInOptions) = None
        \<longrightarrow> signIn this signInOptions
            = Inr (createWithError this (InvalidArgumentError ''username''
                     (getCorrelationId this (correlationId signInOptions)))))
   \<and> (\<forall>name thrown. truthy (username signInOptions) = Some name
          \<and> signIn_flow this (getCorrelationId this (correlationId signInOptions))
                name signInOptions = Inl thrown
        \<longrightarrow> signIn this signInOptions = Inr (createWithError this thrown))
   \<and> (\<forall>name thrown. truthy (username signInOptions) = Some name
          \<and> (\<forall>params. start this params = Inl thrown)
        \<longrightarrow> signIn this signInOptions = Inr (createWithError this thrown))
   \<and> (\<forall>name secret thrown token. truthy (username signInOptions) = Some name
          \<and> truthy (password signInOptions) = Some secret
          \<and> (\<forall>params. start this params = Inr (SignInWithContinuationTokenResult token))
          \<and> (\<forall>params. submitPassword this params = Inl thrown)
        \<longrightarrow> signIn this signInOptions = Inr (createWithError this thrown))
   \<and> (\<forall>name. truthy (username signInOptions) = Some name
          \<and> (\<forall>params. start this params = Inr OtherStartResult)
        \<longrightarrow> signIn this signInOptions
            = Inr (createWithError this (ThrownNativeAuthError
                     (UnexpectedError (jsonObject this)
                        (ThrownValue (JString ''Unknow SignInStartResult type'')) None))))"
proof (intro conjI allI impI)
  show "\<exists>result. signIn this signInOptions = Inr result"
    by (simp add: signIn_def Let_def split: sum.splits option.splits)
next
  assume "truthy (username signInOptions) = None"
  then show "signIn this signInOptions
            = Inr (createWithError this (InvalidArgumentError ''username''
                     (getCorrelationId this (correlationId signInOptions))))"
    by (simp add: signIn_def Let_def)
next
  fix name thrown
  assume "truthy (username signInOptions) = Some name
          \<and> signIn_flow this (getCorrelationId this (correlationId signInOptions))
                name signInOptions = Inl thrown"
  then show "signIn this signInOptions = Inr (createWithError this thrown)"
    by (simp add: signIn_def Let_def)
next
  fix name thrown
  assume "truthy (username signInOptions) = Some name \<and> (\<forall>params. start this params = Inl thrown)"
  then show "signIn this signInOptions = Inr (createWithError this thrown)"
    by (simp add: signIn_def signIn_flow_def Let_def and_then_def)
next
  fix name secret thrown token
  assume "truthy (username signInOptions) = Some name
          \<and> truthy (password signInOptions) = Some secret
          \<and> (\<forall>params. start this params = Inr (SignInWithContinuationTokenResult token))
          \<and> (\<forall>params. submitPassword this params = Inl thrown)"
  then show "signIn this signInOptions = Inr (createWithError this thrown)"
    by (simp add: signIn_def signIn_flow_def Let_def and_then_def)
next
  fix name
  assume "truthy (username signInOptions) = Some name
          \<and> (\<forall>params. start this params = Inr OtherStartResult)"
  then show "signIn this signInOptions
            = Inr (createWithError this (ThrownNativeAuthError
                     (UnexpectedError (jsonObject this)
                        (ThrownValue (JString ''Unknow SignInStartResult type'')) None)))"
    by (simp add: signIn_def signIn_flow_def Let_def and_then_def)
qed

theorem signIn_never_rejects_witness:
  "signIn (test_controller (Inl (ThrownByClient (ErrorInstance ''user not found'')))) test_inputs
     = Inr \<lparr>data = None, state = None,
            error = Some (ThrownByClient (ErrorInstance ''user not found''))\<rparr>
   \<and> signIn (test_controller (Inr (SignInWithContinuationTokenResult ''token-1''))) test_inputs
     = Inr \<lparr>data = None, state = None,
            error = Some (ThrownByClient (ErrorInstance ''wrong password''))\<rparr>
   \<and> signIn (test_controller (Inr OtherStartResult)) test_inputs
     = Inr \<lparr>data = None, state = None,
            error = Some (ThrownNativeAuthError
                      (NativeAuthError ''unexpected_error'' ''Unknow SignInStartResult type'' None))\<rparr>
   \<and> signIn (test_controller (Inr (SignInCodeSendResponse ''token-2''))) (test_inputs\<lparr>username := None\<rparr>)
     = Inr \<lparr>data = None, state = None,
            error = Some (InvalidArgumentError ''username'' ''guid-0'')\<rparr>"
proof -
  have name: "truthy (username test_inputs) = Some ''user@example.com''"
    and pass: "truthy (password test_inputs) = Some ''secret''"
    and no_name: "truthy (username (test_inputs\<lparr>username := None\<rparr>)) = None"
    by (simp_all add: truthy_def test_inputs_def)
  let ?failing = "test_controller (Inl (ThrownByClient (ErrorInstance ''user not found'')))"
  let ?token = "test_controller (Inr (SignInWithContinuationTokenResult ''token-1''))"
  let ?other = "test_controller (Inr OtherStartResult)"
  let ?code = "test_controller (Inr (SignInCodeSendResponse ''token-2''))"
  have "signIn ?failing test_inputs
      = Inr (createWithError ?failing (ThrownByClient (ErrorInstance ''user not found'')))"
    using signIn_never_rejects [of ?failing test_inputs] name
    by (simp add: test_controller_def)
  moreover have "signIn ?token test_inputs
      = Inr (createWithError ?token (ThrownByClient (ErrorInstance ''wrong password'')))"
    using signIn_never_rejects [of ?token test_inputs] name pass
    by (simp add: test_controller_def)
  moreover have "signIn ?other test_inputs
      = Inr (createWithError ?other (ThrownNativeAuthError
                     (UnexpectedError (jsonObject ?other)
                        (ThrownValue (JString ''Unknow SignInStartResult type'')) None)))"
    using signIn_never_rejects [of ?other test_inputs] name
    by (simp add: test_controller_def)
  moreover have "signIn ?code (test_inputs\<lparr>username := None\<rparr>)
      = Inr (createWithError ?code (InvalidArgumentError ''username''
               (getCorrelationId ?code (correlationId (test_inputs\<lparr>username := None\<rparr>)))))"
    using signIn_never_rejects [of ?code "test_inputs\<lparr>username := None\<rparr>"] no_name
    by blast
  ultimately show ?thesis
    by (simp add: test_controller_def UnexpectedError_def getCorrelationId_def truthy_def
          test_inputs_def)
qed

end
